theory Spec2Isabelle
  imports Complex_Main "HOL-Library.Word" "HOL-Library.AList"
begin

section \<open>Python values and exceptions\<close>

text \<open>
  The values that \<open>response.json()\<close> and \<open>json.loads\<close> produce: \<open>None\<close>, \<open>bool\<close>,
  \<open>int\<close>, \<open>float\<close>, \<open>str\<close>, \<open>list\<close> and \<open>dict\<close>. A dict is the list of its items in
  insertion order, looked up with \<open>map_of\<close>; its keys are always strings. A string is
  a list of characters, one per code point.

  A \<open>float\<close> is a double: a finite one is given by its value (\<open>Finite 0\<close> is \<open>0.0\<close>),
  and there are the negative zero, the two infinities and NaN. Only the values of the type
  are fixed here; conversion to a double and arithmetic on doubles, with their rounding,
  belong to the library below.
\<close>

datatype pyfloat =
    Finite real
  | NegZero
  | PosInf
  | NegInf
  | NaN

datatype json =
    JNull
  | JBool bool
  | JInt int
  | JFloat pyfloat
  | JStr string
  | JArr "json list"
  | JObj "(string \<times> json) list"

text \<open>
  The subclasses of \<open>Exception\<close> that the code can meet. Every one of them is caught by
  \<open>except Exception\<close>; asynchronous \<open>BaseException\<close>s (a keyboard interrupt) are outside
  the model.
\<close>

datatype py_error =
    KeyError
  | IndexError
  | TypeError
  | ValueError
  | JSONDecodeError
  | OverflowError
  | AttributeError
  | ValidationError
  | HTTPError nat
  | OSError
  | RequestException
  | ImportError string
  | ModuleNotFoundError string

type_synonym 'a result = "py_error + 'a"

text \<open>Sequencing of statements that may raise: the first exception ends the block.\<close>

fun try_bind :: "'a result \<Rightarrow> ('a \<Rightarrow> 'b result) \<Rightarrow> 'b result" where
  "try_bind (Inl e) f = Inl e"
| "try_bind (Inr v) f = f v"

text \<open>
  The library functions of Python that the code calls and that are taken as given:
  \<open>json.loads\<close> on a string, \<open>float\<close> on an int (the nearest double, or
  \<open>OverflowError\<close>), \<open>float\<close> on a string (\<open>None\<close> is \<open>ValueError\<close>), the subtraction
  of two floats, and \<open>str\<close> on a value that is not a string.
\<close>

record pylib =
  json_loads :: "string \<Rightarrow> json result"
  float_of_int :: "int \<Rightarrow> pyfloat result"
  float_of_str :: "string \<Rightarrow> pyfloat option"
  float_sub :: "pyfloat \<Rightarrow> pyfloat \<Rightarrow> pyfloat"
  str_of :: "json \<Rightarrow> string"

text \<open>\<open>v[k]\<close> for a string key \<open>k\<close>: only a dict accepts it.\<close>

fun subscript_str :: "json \<Rightarrow> string \<Rightarrow> json result" where
  "subscript_str (JObj m) k = (case map_of m k of None \<Rightarrow> Inl KeyError | Some x \<Rightarrow> Inr x)"
| "subscript_str _ k = Inl TypeError"

text \<open>\<open>v[0]\<close>: the first item of a list or of a string; a dict has no key \<open>0\<close>.\<close>

fun subscript_0 :: "json \<Rightarrow> json result" where
  "subscript_0 (JArr []) = Inl IndexError"
| "subscript_0 (JArr (x # xs)) = Inr x"
| "subscript_0 (JStr []) = Inl IndexError"
| "subscript_0 (JStr (c # cs)) = Inr (JStr [c])"
| "subscript_0 (JObj m) = Inl KeyError"
| "subscript_0 _ = Inl TypeError"

text \<open>\<open>for elem in v\<close>: a list gives its items, a dict its keys, a string its characters.\<close>

fun py_iter :: "json \<Rightarrow> json list result" where
  "py_iter (JArr xs) = Inr xs"
| "py_iter (JObj m) = Inr (map (\<lambda>kv. JStr (fst kv)) m)"
| "py_iter (JStr s) = Inr (map (\<lambda>c. JStr [c]) s)"
| "py_iter _ = Inl TypeError"

text \<open>
  \<open>float(v)\<close>: a float is itself, an int is converted by the library, \<open>True\<close> and
  \<open>False\<close> are the ints 1 and 0, a string is parsed by the library, and nothing else is
  accepted.
\<close>

fun py_float :: "pylib \<Rightarrow> json \<Rightarrow> pyfloat result" where
  "py_float lib (JInt i) = float_of_int lib i"
| "py_float lib (JFloat x) = Inr x"
| "py_float lib (JBool b) = float_of_int lib (if b then 1 else 0)"
| "py_float lib (JStr s) =
     (case float_of_str lib s of None \<Rightarrow> Inl ValueError | Some x \<Rightarrow> Inr x)"
| "py_float lib _ = Inl TypeError"

text \<open>\<open>json.loads(v)\<close>: the argument must be a string.\<close>

fun py_json_loads :: "pylib \<Rightarrow> json \<Rightarrow> json result" where
  "py_json_loads lib (JStr s) = json_loads lib s"
| "py_json_loads lib _ = Inl TypeError"

text \<open>\<open>str(v)\<close>: a string is itself.\<close>

fun py_str :: "pylib \<Rightarrow> json \<Rightarrow> string" where
  "py_str lib (JStr s) = s"
| "py_str lib v = str_of lib v"

text \<open>\<open>v.get(k, d)\<close>: only a dict has the method.\<close>

fun py_get :: "json \<Rightarrow> string \<Rightarrow> json \<Rightarrow> json result" where
  "py_get (JObj m) k d = Inr (case map_of m k of None \<Rightarrow> d | Some x \<Rightarrow> x)"
| "py_get _ k d = Inl AttributeError"

section \<open>Response-to-annotation conversion\<close>

text \<open>
  A \<open>Detection\<close> has a label, a box and, as a dynamic attribute, the text. The
  constructor of the host library validates its fields: a label must be a string or
  \<open>None\<close>, and any other value raises \<open>ValidationError\<close>; the box is a list of floats here
  and the text, being dynamic, is stored as given. \<open>Detections\<close> is the list of its
  detections.
\<close>

record detection =
  label :: "string option"
  bounding_box :: "pyfloat list"
  text_of :: json

type_synonym detections = "detection list"

fun new_detection :: "json \<Rightarrow> pyfloat list \<Rightarrow> json \<Rightarrow> detection result" where
  "new_detection (JStr s) box tx = Inr \<lparr>label = Some s, bounding_box = box, text_of = tx\<rparr>"
| "new_detection JNull box tx = Inr \<lparr>label = None, bounding_box = box, text_of = tx\<rparr>"
| "new_detection _ box tx = Inl ValidationError"

text \<open>
  \<open>response['choices'][0]['message']['tool_calls'][0]['function']['arguments']\<close>,
  in two steps so that the value of \<open>message\<close> can be named.
\<close>

definition response_message :: "json \<Rightarrow> json result" where
  "response_message response =
     try_bind (subscript_str response ''choices'') (\<lambda>choices.
     try_bind (subscript_0 choices) (\<lambda>choice.
     subscript_str choice ''message''))"

definition message_arguments :: "json \<Rightarrow> json result" where
  "message_arguments message =
     try_bind (subscript_str message ''tool_calls'') (\<lambda>calls.
     try_bind (subscript_0 calls) (\<lambda>call.
     try_bind (subscript_str call ''function'') (\<lambda>fn.
     subscript_str fn ''arguments'')))"

definition response_arguments :: "json \<Rightarrow> json result" where
  "response_arguments response = try_bind (response_message response) message_arguments"

text \<open>\<open>float(elem['bbox'][k])\<close>\<close>

definition bbox_coord :: "pylib \<Rightarrow> json \<Rightarrow> string \<Rightarrow> pyfloat result" where
  "bbox_coord lib elem k =
     try_bind (subscript_str elem ''bbox'') (\<lambda>b.
     try_bind (subscript_str b k) (py_float lib))"

text \<open>
  The body of the element loop up to \<open>detections.append\<close>: the four entries of the box in
  the order the list display evaluates them, then the keyword arguments of \<open>Detection\<close>,
  then its constructor.
\<close>

definition element_detection :: "pylib \<Rightarrow> json \<Rightarrow> detection result" where
  "element_detection lib elem =
     try_bind (bbox_coord lib elem ''xmin'') (\<lambda>x.
     try_bind (bbox_coord lib elem ''ymin'') (\<lambda>y.
     try_bind (bbox_coord lib elem ''xmax'') (\<lambda>xmax.
     try_bind (bbox_coord lib elem ''xmin'') (\<lambda>xmin.
     try_bind (bbox_coord lib elem ''ymax'') (\<lambda>ymax.
     try_bind (bbox_coord lib elem ''ymin'') (\<lambda>ymin.
     try_bind (subscript_str elem ''type'') (\<lambda>ty.
     try_bind (subscript_str elem ''text'') (\<lambda>tx.
     new_detection ty [x, y, float_sub lib xmax xmin, float_sub lib ymax ymin] tx))))))))"

text \<open>
  The element loop. The list \<open>detections\<close> is the state: an exception leaves the loop with
  the detections appended so far.
\<close>

fun element_loop :: "pylib \<Rightarrow> json list \<Rightarrow> detections \<Rightarrow> unit result \<times> detections" where
  "element_loop lib [] dets = (Inr (), dets)"
| "element_loop lib (elem # elems) dets =
     (case element_detection lib elem of
        Inl e \<Rightarrow> (Inl e, dets)
      | Inr d \<Rightarrow> element_loop lib elems (dets @ [d]))"

text \<open>\<open>json.loads(bbox_data)[0]\<close>, made ready for the loop.\<close>

definition response_elements :: "pylib \<Rightarrow> json \<Rightarrow> json list result" where
  "response_elements lib response =
     try_bind (response_arguments response) (\<lambda>bbox_data.
     try_bind (py_json_loads lib bbox_data) (\<lambda>decoded.
     try_bind (subscript_0 decoded) py_iter))"

text \<open>The block under \<open>try\<close>, started with \<open>detections = []\<close>.\<close>

definition parse_try_block :: "pylib \<Rightarrow> json \<Rightarrow> unit result \<times> detections" where
  "parse_try_block lib response =
     (case response_elements lib response of
        Inl e \<Rightarrow> (Inl e, [])
      | Inr elems \<Rightarrow> element_loop lib elems [])"

text \<open>
  The handler prints the exception and falls through to the \<open>return\<close>, which wraps the
  list as it then is.
\<close>

definition parse_nemo_response_to_detections :: "pylib \<Rightarrow> json \<Rightarrow> detections result" where
  "parse_nemo_response_to_detections lib response =
     (case parse_try_block lib response of
        (Inl e, dets) \<Rightarrow> Inr dets
      | (Inr u, dets) \<Rightarrow> Inr dets)"

section \<open>The world outside: files, HTTP, the trace of calls\<close>

type_synonym bytes = "8 word list"

datatype http_method = POST | PUT

datatype http_body = JsonBody json | DataBody bytes

record http_request =
  req_method :: http_method
  req_url :: string
  req_headers :: "(string \<times> string) list"
  req_body :: http_body
  req_timeout :: "nat option"

text \<open>
  A response is its status code and what \<open>.json()\<close> gives on it (an exception when the body
  is not JSON).
\<close>

record http_response =
  status_code :: nat
  json_result :: "json result"

text \<open>
  Every call that leaves the process is an event of the trace, oldest first. The world
  answers a call as a function of the calls made so far, so nothing is assumed about the
  server or the disk: a call may raise instead of returning.
\<close>

datatype event =
    FileRead string
  | HttpCall http_request
  | SetValues string
  | ReloadDataset

text \<open>
  The dataset belongs to the host. A sample has its file path and its other fields by
  name; \<open>dataset.values("filepath")\<close> lists the paths in sample order.
\<close>

datatype field_value = DetectionsValue detections | JsonValue json

record sample =
  sample_filepath :: string
  sample_fields :: "string \<Rightarrow> field_value option"

definition dataset_filepaths :: "sample list \<Rightarrow> string list" where
  "dataset_filepaths dataset = map sample_filepath dataset"

text \<open>
  The world: the disk, the server and, for \<open>dataset.set_values(field, values)\<close>, the
  host library, which returns or raises and leaves the dataset as the second component
  says. What the host does with the values is its own matter and is not fixed here.
\<close>

record env =
  open_read :: "event list \<Rightarrow> string \<Rightarrow> bytes result"
  http_send :: "event list \<Rightarrow> http_request \<Rightarrow> http_response result"
  set_values :: "string \<Rightarrow> field_value list \<Rightarrow> sample list \<Rightarrow> unit result \<times> sample list"

text \<open>\<open>raise_for_status\<close> of requests raises on the 4xx and 5xx codes and on no other.\<close>

definition raise_for_status :: "http_response \<Rightarrow> unit result" where
  "raise_for_status r =
     (if 400 \<le> status_code r \<and> status_code r < 600 then Inl (HTTPError (status_code r))
      else Inr ())"

fun http_calls :: "event list \<Rightarrow> http_request list" where
  "http_calls [] = []"
| "http_calls (HttpCall r # evs) = r # http_calls evs"
| "http_calls (_ # evs) = http_calls evs"

section \<open>Headers, asset upload, parse invocation\<close>

text \<open>\<open>d.update(new)\<close> of a dict: a key that exists keeps its place, a new one goes last.\<close>

fun dict_update :: "(string \<times> string) list \<Rightarrow> (string \<times> string) list \<Rightarrow> (string \<times> string) list" where
  "dict_update d [] = d"
| "dict_update d (kv # kvs) = dict_update (AList.update (fst kv) (snd kv) d) kvs"

text \<open>\<open>asset_id\<close> defaults to \<open>None\<close>; \<open>if asset_id\<close> is false for \<open>None\<close> and for the empty string.\<close>

definition create_headers :: "string \<Rightarrow> string option \<Rightarrow> (string \<times> string) list" where
  "create_headers api_key asset_id =
     (let headers = [(''Authorization'', ''Bearer '' @ api_key),
                     (''Accept'', ''application/json'')]
      in case asset_id of
           None \<Rightarrow> headers
         | Some a \<Rightarrow>
             if a \<noteq> [] then
               dict_update headers
                 [(''Content-Type'', ''application/json''),
                  (''NVCF-INPUT-ASSET-REFERENCES'', a),
                  (''NVCF-FUNCTION-ASSET-IDS'', a)]
             else headers)"

definition assets_url :: string where
  "assets_url = ''https://api.nvcf.nvidia.com/v2/nvcf/assets''"

definition chat_completions_url :: string where
  "chat_completions_url = ''https://integrate.api.nvidia.com/v1/chat/completions''"

definition register_request :: "string \<Rightarrow> string \<Rightarrow> http_request" where
  "register_request description api_key =
     \<lparr>req_method = POST, req_url = assets_url,
      req_headers = create_headers api_key None,
      req_body = JsonBody (JObj [(''contentType'', JStr ''image/jpeg''),
                                 (''description'', JStr description)]),
      req_timeout = Some 30\<rparr>"

text \<open>requests turns the URL it is given into a string with \<open>str\<close>.\<close>

definition put_request :: "pylib \<Rightarrow> json \<Rightarrow> bytes \<Rightarrow> string \<Rightarrow> http_request" where
  "put_request lib upload_url image_data description =
     \<lparr>req_method = PUT, req_url = py_str lib upload_url,
      req_headers = [(''x-amz-meta-nvcf-asset-description'', description),
                     (''content-type'', ''image/jpeg'')],
      req_body = DataBody image_data,
      req_timeout = Some 300\<rparr>"

text \<open>
  \<open>upload_asset\<close>: the POST, \<open>raise_for_status\<close>, \<open>.json()\<close>, the subscript \<open>uploadUrl\<close>
  (an argument of the PUT, so evaluated before it), the PUT, \<open>raise_for_status\<close>, the
  subscript \<open>assetId\<close>, \<open>str\<close>.
\<close>

definition upload_asset ::
  "pylib \<Rightarrow> env \<Rightarrow> bytes \<Rightarrow> string \<Rightarrow> string \<Rightarrow> event list \<Rightarrow> string result \<times> event list" where
  "upload_asset lib env image_data description api_key tr =
     (let req1 = register_request description api_key;
          tr1 = tr @ [HttpCall req1]
      in case http_send env tr req1 of
           Inl e \<Rightarrow> (Inl e, tr1)
         | Inr auth_response \<Rightarrow>
            (case try_bind (raise_for_status auth_response) (\<lambda>u.
                  try_bind (json_result auth_response) (\<lambda>auth_data.
                  try_bind (subscript_str auth_data ''uploadUrl'') (\<lambda>upload_url.
                  Inr (auth_data, upload_url)))) of
               Inl e \<Rightarrow> (Inl e, tr1)
             | Inr (auth_data, upload_url) \<Rightarrow>
                (let req2 = put_request lib upload_url image_data description;
                     tr2 = tr1 @ [HttpCall req2]
                 in case http_send env tr1 req2 of
                      Inl e \<Rightarrow> (Inl e, tr2)
                    | Inr upload_response \<Rightarrow>
                       (try_bind (raise_for_status upload_response) (\<lambda>u.
                        try_bind (subscript_str auth_data ''assetId'') (\<lambda>a.
                        Inr (py_str lib a))), tr2))))"

definition parse_payload :: "string \<Rightarrow> json" where
  "parse_payload asset_id =
     (let content = JArr [JObj [(''type'', JStr ''image_url''),
                                (''image_url'',
                                 JObj [(''url'', JStr (''data:image/jpeg;asset_id,'' @ asset_id))])]];
          tool = JArr [JObj [(''type'', JStr ''function''),
                             (''function'', JObj [(''name'', JStr ''markdown_bbox'')])]]
      in JObj [(''tools'', tool),
               (''model'', JStr ''nvidia/nemoretriever-parse''),
               (''messages'', JArr [JObj [(''role'', JStr ''user''), (''content'', content)]])])"

definition parse_request :: "string \<Rightarrow> string \<Rightarrow> http_request" where
  "parse_request asset_id api_key =
     \<lparr>req_method = POST, req_url = chat_completions_url,
      req_headers = create_headers api_key (Some asset_id),
      req_body = JsonBody (parse_payload asset_id),
      req_timeout = None\<rparr>"

definition process_image ::
  "pylib \<Rightarrow> env \<Rightarrow> string \<Rightarrow> string \<Rightarrow> event list \<Rightarrow> json result \<times> event list" where
  "process_image lib env image_path api_key tr =
     (let tr0 = tr @ [FileRead image_path]
      in case open_read env tr image_path of
           Inl e \<Rightarrow> (Inl e, tr0)
         | Inr image_data \<Rightarrow>
            (case upload_asset lib env image_data ''Test Image'' api_key tr0 of
               (Inl e, tr1) \<Rightarrow> (Inl e, tr1)
             | (Inr asset_id, tr1) \<Rightarrow>
                (let req = parse_request asset_id api_key;
                     tr2 = tr1 @ [HttpCall req]
                 in case http_send env tr1 req of
                      Inl e \<Rightarrow> (Inl e, tr2)
                    | Inr response \<Rightarrow>
                       (try_bind (raise_for_status response) (\<lambda>u. json_result response), tr2))))"

section \<open>Batch orchestration\<close>

text \<open>The four accumulator lists of \<open>run_nemo_parse\<close>.\<close>

record results =
  all_detections :: "detections list"
  prompt_tokens :: "json list"
  completion_tokens :: "json list"
  total_tokens :: "json list"

definition no_results :: results where
  "no_results = \<lparr>all_detections = [], prompt_tokens = [], completion_tokens = [], total_tokens = []\<rparr>"

text \<open>
  The block under \<open>try\<close> for one file path. Each \<open>append\<close> changes the lists at once, so
  an exception leaves the block with the appends made before it.
\<close>

definition item_try_block ::
  "pylib \<Rightarrow> env \<Rightarrow> string \<Rightarrow> string \<Rightarrow> results \<Rightarrow> event list \<Rightarrow> unit result \<times> results \<times> event list" where
  "item_try_block lib env filepath api_key acc tr =
     (case process_image lib env filepath api_key tr of
        (Inl e, tr1) \<Rightarrow> (Inl e, acc, tr1)
      | (Inr response, tr1) \<Rightarrow>
         (case parse_nemo_response_to_detections lib response of
            Inl e \<Rightarrow> (Inl e, acc, tr1)
          | Inr dets \<Rightarrow>
             (let acc1 = acc\<lparr>all_detections := all_detections acc @ [dets]\<rparr>
              in case py_get response ''usage'' (JObj []) of
                   Inl e \<Rightarrow> (Inl e, acc1, tr1)
                 | Inr usage \<Rightarrow>
                    (case py_get usage ''prompt_tokens'' (JInt 0) of
                       Inl e \<Rightarrow> (Inl e, acc1, tr1)
                     | Inr p \<Rightarrow>
                        (let acc2 = acc1\<lparr>prompt_tokens := prompt_tokens acc1 @ [p]\<rparr>
                         in case py_get usage ''completion_tokens'' (JInt 0) of
                              Inl e \<Rightarrow> (Inl e, acc2, tr1)
                            | Inr c \<Rightarrow>
                               (let acc3 = acc2\<lparr>completion_tokens := completion_tokens acc2 @ [c]\<rparr>
                                in case py_get usage ''total_tokens'' (JInt 0) of
                                     Inl e \<Rightarrow> (Inl e, acc3, tr1)
                                   | Inr t \<Rightarrow>
                                      (Inr (), acc3\<lparr>total_tokens := total_tokens acc3 @ [t]\<rparr>,
                                       tr1)))))))"

text \<open>The handler, after its \<open>print\<close>: \<open>Detections()\<close> and three zeros.\<close>

definition item_handler :: "results \<Rightarrow> results" where
  "item_handler acc =
     acc\<lparr>all_detections := all_detections acc @ [[]],
         prompt_tokens := prompt_tokens acc @ [JInt 0],
         completion_tokens := completion_tokens acc @ [JInt 0],
         total_tokens := total_tokens acc @ [JInt 0]\<rparr>"

text \<open>
  One turn of the loop: the block, and the handler when the block raised. The progress
  bar hands the paths on in their order, so the loop is a recursion over the list.
\<close>

definition item_step ::
  "pylib \<Rightarrow> env \<Rightarrow> string \<Rightarrow> string \<Rightarrow> results \<Rightarrow> event list \<Rightarrow> results \<times> event list" where
  "item_step lib env filepath api_key acc tr =
     (case item_try_block lib env filepath api_key acc tr of
        (Inl e, acc1, tr1) \<Rightarrow> (item_handler acc1, tr1)
      | (Inr u, acc1, tr1) \<Rightarrow> (acc1, tr1))"

fun item_loop ::
  "pylib \<Rightarrow> env \<Rightarrow> string \<Rightarrow> string list \<Rightarrow> results \<Rightarrow> event list \<Rightarrow> results \<times> event list" where
  "item_loop lib env api_key [] acc tr = (acc, tr)"
| "item_loop lib env api_key (filepath # filepaths) acc tr =
     (case item_step lib env filepath api_key acc tr of
        (acc1, tr1) \<Rightarrow> item_loop lib env api_key filepaths acc1 tr1)"

section \<open>Writing the results\<close>

text \<open>
  \<open>run_nemo_parse\<close>: the loop over the file paths, then the four \<open>set_values\<close> calls.
  They stand outside every \<open>try\<close>, so the first that raises ends the function and the
  later ones are not made. The result is how the function ended with the dataset as it
  then is, the four lists, and the trace.
\<close>

definition run_nemo_parse ::
  "pylib \<Rightarrow> env \<Rightarrow> sample list \<Rightarrow> string \<Rightarrow> event list
     \<Rightarrow> (unit result \<times> sample list) \<times> results \<times> event list" where
  "run_nemo_parse lib env dataset api_key tr =
     (case item_loop lib env api_key (dataset_filepaths dataset) no_results tr of
        (res, tr1) \<Rightarrow>
          (case set_values env ''nemo_detections''
                  (map DetectionsValue (all_detections res)) dataset of
             (Inl e, d1) \<Rightarrow> ((Inl e, d1), res, tr1 @ [SetValues ''nemo_detections''])
           | (Inr u1, d1) \<Rightarrow>
          (case set_values env ''nemo_prompt_tokens''
                  (map JsonValue (prompt_tokens res)) d1 of
             (Inl e, d2) \<Rightarrow>
               ((Inl e, d2), res,
                tr1 @ [SetValues ''nemo_detections'', SetValues ''nemo_prompt_tokens''])
           | (Inr u2, d2) \<Rightarrow>
          (case set_values env ''nemo_completion_tokens''
                  (map JsonValue (completion_tokens res)) d2 of
             (Inl e, d3) \<Rightarrow>
               ((Inl e, d3), res,
                tr1 @ [SetValues ''nemo_detections'', SetValues ''nemo_prompt_tokens'',
                       SetValues ''nemo_completion_tokens''])
           | (Inr u3, d3) \<Rightarrow>
          (case set_values env ''nemo_total_tokens''
                  (map JsonValue (total_tokens res)) d3 of
             (r, d4) \<Rightarrow>
               ((r, d4), res,
                tr1 @ [SetValues ''nemo_detections'', SetValues ''nemo_prompt_tokens'',
                       SetValues ''nemo_completion_tokens'', SetValues ''nemo_total_tokens'']))))))"

section \<open>Loading the plugin package\<close>

text \<open>
  What a name of a module's namespace is bound to: a module, a name imported from another
  library, or one of the functions that \<open>nemo_retriever.py\<close> defines.
\<close>

datatype core_function =
    CreateHeaders
  | UploadAsset
  | ProcessImage
  | ParseNemoResponseToDetections
  | RunNemoParse

datatype py_object =
    ModuleObject string
  | LibraryObject string
  | FunctionObject core_function

text \<open>\<open>import m\<close>: whether a module can be found is the installation's matter.\<close>

definition import_module :: "(string \<Rightarrow> bool) \<Rightarrow> string \<Rightarrow> unit result" where
  "import_module installed m = (if installed m then Inr () else Inl (ModuleNotFoundError m))"

text \<open>
  Running \<open>nemo_retriever.py\<close> from top to bottom: its seven import statements, then its
  five \<open>def\<close>s. The result is the namespace of the module.
\<close>

definition nemo_retriever_module :: "(string \<Rightarrow> bool) \<Rightarrow> (string \<times> py_object) list result" where
  "nemo_retriever_module installed =
     try_bind (import_module installed ''fiftyone'') (\<lambda>u.
     try_bind (import_module installed ''fiftyone.core.labels'') (\<lambda>u.
     try_bind (import_module installed ''json'') (\<lambda>u.
     try_bind (import_module installed ''requests'') (\<lambda>u.
     try_bind (import_module installed ''typing'') (\<lambda>u.
     try_bind (import_module installed ''getpass'') (\<lambda>u.
     try_bind (import_module installed ''tqdm'') (\<lambda>u.
     Inr [(''fo'', ModuleObject ''fiftyone''),
          (''Detections'', LibraryObject ''fiftyone.core.labels.Detections''),
          (''Detection'', LibraryObject ''fiftyone.core.labels.Detection''),
          (''json'', ModuleObject ''json''),
          (''requests'', ModuleObject ''requests''),
          (''Dict'', LibraryObject ''typing.Dict''),
          (''getpass'', LibraryObject ''getpass.getpass''),
          (''tqdm'', LibraryObject ''tqdm.tqdm''),
          (''create_headers'', FunctionObject CreateHeaders),
          (''upload_asset'', FunctionObject UploadAsset),
          (''process_image'', FunctionObject ProcessImage),
          (''parse_nemo_response_to_detections'', FunctionObject ParseNemoResponseToDetections),
          (''run_nemo_parse'', FunctionObject RunNemoParse)])))))))"

text \<open>
  \<open>from module import name\<close>: the name must be bound in the module (\<open>nemo_retriever\<close> is
  a module, not a package, so there is no submodule to fall back on).
\<close>

definition import_from :: "(string \<times> py_object) list \<Rightarrow> string \<Rightarrow> py_object result" where
  "import_from namespace name =
     (case map_of namespace name of None \<Rightarrow> Inl (ImportError name) | Some ob \<Rightarrow> Inr ob)"

text \<open>
  Running \<open>__init__.py\<close> as far as line 7. The result is what the package binds the name
  \<open>run_nemo_retriever_parse\<close> to, the only name that \<open>execute\<close> takes from the core module.
\<close>

definition load_package :: "(string \<Rightarrow> bool) \<Rightarrow> py_object result" where
  "load_package installed =
     try_bind (import_module installed ''os'') (\<lambda>u.
     try_bind (import_module installed ''fiftyone'') (\<lambda>u.
     try_bind (import_module installed ''fiftyone.core.utils'') (\<lambda>u.
     try_bind (import_module installed ''fiftyone.operators'') (\<lambda>u.
     try_bind (nemo_retriever_module installed) (\<lambda>core.
     import_from core ''run_nemo_retriever_parse'')))))"

text \<open>
  \<open>NemoRetrieverParse.execute\<close>: the call of the imported object with the keyword arguments
  \<open>dataset\<close> and \<open>api_key\<close>, then the reload. Of the objects above only \<open>run_nemo_parse\<close>
  takes these two keywords.
\<close>

definition execute ::
  "py_object \<Rightarrow> pylib \<Rightarrow> env \<Rightarrow> sample list \<Rightarrow> string \<Rightarrow> event list
     \<Rightarrow> unit result \<times> sample list \<times> event list" where
  "execute run_nemo_retriever_parse lib env view api_key tr =
     (case run_nemo_retriever_parse of
        FunctionObject RunNemoParse \<Rightarrow>
          (case run_nemo_parse lib env view api_key tr of
             ((Inl e, d), res, tr1) \<Rightarrow> (Inl e, d, tr1)
           | ((Inr u, d), res, tr1) \<Rightarrow> (Inr (), d, tr1 @ [ReloadDataset]))
      | _ \<Rightarrow> (Inl TypeError, view, tr))"

text \<open>The host loads the package before it can run the operator.\<close>

definition run_operator ::
  "(string \<Rightarrow> bool) \<Rightarrow> pylib \<Rightarrow> env \<Rightarrow> sample list \<Rightarrow> string \<Rightarrow> event list
     \<Rightarrow> unit result \<times> sample list \<times> event list" where
  "run_operator installed lib env view api_key tr =
     (case load_package installed of
        Inl e \<Rightarrow> (Inl e, view, tr)
      | Inr f \<Rightarrow> execute f lib env view api_key tr)"

section \<open>The specification's terms\<close>

text \<open>
  Reading a JSON value as the specification does: a field of an object, the first item of
  an array, a value that is a string.
\<close>

fun field :: "json \<Rightarrow> string \<Rightarrow> json option" where
  "field (JObj m) k = map_of m k"
| "field _ k = None"

fun first_item :: "json \<Rightarrow> json option" where
  "first_item (JArr (x # xs)) = Some x"
| "first_item _ = None"

fun string_value :: "json \<Rightarrow> string option" where
  "string_value (JStr s) = Some s"
| "string_value _ = None"

text \<open>
  The float that a JSON number stands for: a float is itself and an int is the double
  that the library converts it to, when there is one. A coordinate is valid when it is
  such a number.
\<close>

fun number_value :: "pylib \<Rightarrow> json \<Rightarrow> pyfloat option" where
  "number_value lib (JInt i) = (case float_of_int lib i of Inl e \<Rightarrow> None | Inr x \<Rightarrow> Some x)"
| "number_value lib (JFloat x) = Some x"
| "number_value lib _ = None"

definition coordinate :: "pylib \<Rightarrow> json \<Rightarrow> string \<Rightarrow> pyfloat option" where
  "coordinate lib b k = Option.bind (field b k) (number_value lib)"

text \<open>
  The region that the specification gives for an element object with \<open>type\<close>, \<open>text\<close> and
  \<open>bbox{xmin,ymin,xmax,ymax}\<close>: the label is the type, a string, the text is a string,
  and the box is \<open>[xmin, ymin, xmax-xmin, ymax-ymin]\<close> in floats. An element is valid
  when this is defined.
\<close>

definition spec_region :: "pylib \<Rightarrow> json \<Rightarrow> detection option" where
  "spec_region lib elem =
     Option.bind (Option.bind (field elem ''type'') string_value) (\<lambda>ty.
     Option.bind (Option.bind (field elem ''text'') string_value) (\<lambda>tx.
     Option.bind (field elem ''bbox'') (\<lambda>b.
     Option.bind (coordinate lib b ''xmin'') (\<lambda>xmin.
     Option.bind (coordinate lib b ''ymin'') (\<lambda>ymin.
     Option.bind (coordinate lib b ''xmax'') (\<lambda>xmax.
     Option.bind (coordinate lib b ''ymax'') (\<lambda>ymax.
     Some \<lparr>label = Some ty,
           bounding_box = [xmin, ymin, float_sub lib xmax xmin, float_sub lib ymax ymin],
           text_of = JStr tx\<rparr>)))))))"

definition valid_element :: "pylib \<Rightarrow> json \<Rightarrow> bool" where
  "valid_element lib elem = (spec_region lib elem \<noteq> None)"

text \<open>
  What double arithmetic does on integers of magnitude up to \<open>2^53\<close>: each is a double,
  and the difference of two of them, when it is in that range too, is computed exactly.
\<close>

definition exact_on_small_integers :: "pylib \<Rightarrow> bool" where
  "exact_on_small_integers lib =
     ((\<forall>i. \<bar>i\<bar> \<le> 2 ^ 53 \<longrightarrow> float_of_int lib i = Inr (Finite (of_int i)))
      \<and> (\<forall>i j. \<bar>i\<bar> \<le> 2 ^ 53 \<and> \<bar>j\<bar> \<le> 2 ^ 53 \<and> \<bar>i - j\<bar> \<le> 2 ^ 53
            \<longrightarrow> float_sub lib (Finite (of_int i)) (Finite (of_int j)) = Finite (of_int (i - j))))"

text \<open>
  The path of the specification, \<open>choices[0].message.tool_calls[0].function.arguments\<close>,
  read on a response.
\<close>

definition message_of :: "json \<Rightarrow> json option" where
  "message_of response =
     Option.bind (field response ''choices'') (\<lambda>choices.
     Option.bind (first_item choices) (\<lambda>choice.
     field choice ''message''))"

text \<open>
  A response whose path leads to the value \<open>arguments\<close>; every level may hold further keys
  and items.
\<close>

definition response_with_arguments :: "json \<Rightarrow> json \<Rightarrow> bool" where
  "response_with_arguments response arguments =
     (Option.bind (message_of response) (\<lambda>message.
      Option.bind (field message ''tool_calls'') (\<lambda>calls.
      Option.bind (first_item calls) (\<lambda>call.
      Option.bind (field call ''function'') (\<lambda>fn.
      field fn ''arguments'')))) = Some arguments)"

text \<open>
  A response whose \<open>message\<close> is an object without the key \<open>tool_calls\<close>.
\<close>

definition missing_tool_calls :: "json \<Rightarrow> bool" where
  "missing_tool_calls response =
     (case message_of response of
        Some (JObj msg) \<Rightarrow> map_of msg ''tool_calls'' = None
      | _ \<Rightarrow> False)"

text \<open>
  The detections of the longest run of elements, from the first on, that convert without
  an exception.
\<close>

fun converted_prefix :: "pylib \<Rightarrow> json list \<Rightarrow> detections" where
  "converted_prefix lib [] = []"
| "converted_prefix lib (elem # elems) =
     (case element_detection lib elem of
        Inl e \<Rightarrow> []
      | Inr d \<Rightarrow> d # converted_prefix lib elems)"

text \<open>An element whose \<open>bbox\<close> object holds the four given integers.\<close>

definition bbox_is :: "json \<Rightarrow> int \<Rightarrow> int \<Rightarrow> int \<Rightarrow> int \<Rightarrow> bool" where
  "bbox_is elem x0 y0 x1 y1 =
     (Option.bind (field elem ''bbox'') (\<lambda>b.
        Some [field b ''xmin'', field b ''ymin'', field b ''xmax'', field b ''ymax''])
      = Some [Some (JInt x0), Some (JInt y0), Some (JInt x1), Some (JInt y1)])"



text \<open>The fields that \<open>run_nemo_parse\<close> writes.\<close>

definition nemo_fields :: "string list" where
  "nemo_fields = [''nemo_detections'', ''nemo_prompt_tokens'',
                  ''nemo_completion_tokens'', ''nemo_total_tokens'']"


text \<open>
  What the headers of a call of the pipeline are, by kind of call: a POST carries the
  bearer token, the PUT to the upload URL carries the description and the content type
  and nothing else.
\<close>

definition call_headers_ok :: "string \<Rightarrow> http_request \<Rightarrow> bool" where
  "call_headers_ok api_key r =
     (case req_method r of
        POST \<Rightarrow> map_of (req_headers r) ''Authorization'' = Some (''Bearer '' @ api_key)
      | PUT \<Rightarrow> map (fst) (req_headers r) = [''x-amz-meta-nvcf-asset-description'', ''content-type''])"

text \<open>The same for an event of the per-item pipeline; a dataset event is not one.\<close>

fun event_headers_ok :: "string \<Rightarrow> event \<Rightarrow> bool" where
  "event_headers_ok api_key (FileRead p) = True"
| "event_headers_ok api_key (HttpCall r) = call_headers_ok api_key r"
| "event_headers_ok api_key _ = False"

section \<open>Concrete inputs\<close>

text \<open>
  An element object, the text of an \<open>arguments\<close> string that holds it, and a second one
  whose second element has no \<open>bbox\<close>.
\<close>

definition title_element :: json where
  "title_element =
     JObj [(''type'', JStr ''Title''), (''text'', JStr ''Invoice''),
           (''bbox'', JObj [(''xmin'', JInt 10), (''ymin'', JInt 20),
                            (''xmax'', JInt 110), (''ymax'', JInt 220)])]"

definition title_region :: detection where
  "title_region =
     \<lparr>label = Some ''Title'', bounding_box = [Finite 10, Finite 20, Finite 100, Finite 200],
      text_of = JStr ''Invoice''\<rparr>"

definition one_element_text :: string where
  \<open>one_element_text =
     ''[[{"type":"Title","text":"Invoice","bbox":{"xmin":10,"ymin":20,"xmax":110,"ymax":220}}]]''\<close>

definition broken_second_text :: string where
  \<open>broken_second_text =
     ''[[{"type":"Title","text":"Invoice","bbox":{"xmin":10,"ymin":20,"xmax":110,"ymax":220}},{"type":"Text"}]]''\<close>

text \<open>
  The library at the arguments that the concrete inputs use: \<open>json.loads\<close> of the two texts
  above, and doubles on the integers up to \<open>2^53\<close>, where conversion and a difference
  that stays in the range are exact. Outside these arguments the table says nothing of
  Python: no other string is decoded, converted to a float or printed.
\<close>

definition table_lib :: pylib where
  "table_lib =
     \<lparr>json_loads = (\<lambda>s. if s = one_element_text then Inr (JArr [JArr [title_element]])
                         else if s = broken_second_text
                           then Inr (JArr [JArr [title_element, JObj [(''type'', JStr ''Text'')]]])
                         else Inl JSONDecodeError),
      float_of_int = (\<lambda>i. if \<bar>i\<bar> \<le> 2 ^ 53 then Inr (Finite (of_int i)) else Inl OverflowError),
      float_of_str = (\<lambda>s. None),
      float_sub = (\<lambda>x y. case (x, y) of (Finite a, Finite b) \<Rightarrow> Finite (a - b) | _ \<Rightarrow> NaN),
      str_of = (\<lambda>v. [])\<rparr>"

text \<open>A chat-completion response with the given \<open>arguments\<close> string and \<open>usage\<close> value.\<close>

definition chat_response :: "string \<Rightarrow> json \<Rightarrow> json" where
  "chat_response arguments usage =
     JObj [(''choices'',
            JArr [JObj [(''message'',
              JObj [(''role'', JStr ''assistant''),
                    (''tool_calls'',
                     JArr [JObj [(''function'',
                       JObj [(''name'', JStr ''markdown_bbox''),
                             (''arguments'', JStr arguments)])]])])]]),
           (''usage'', usage)]"

definition usage_counters :: "int \<Rightarrow> int \<Rightarrow> int \<Rightarrow> json" where
  "usage_counters p c t =
     JObj [(''prompt_tokens'', JInt p), (''completion_tokens'', JInt c), (''total_tokens'', JInt t)]"

text \<open>
  A host that assigns by position, as far as samples and values go, and that, as the host
  library does, raises \<open>ValueError\<close> for a field that no sample holds yet when it is given
  no value or only \<open>None\<close>s.
\<close>

fun assign_values :: "string \<Rightarrow> field_value list \<Rightarrow> sample list \<Rightarrow> sample list" where
  "assign_values f (v # vs) (s # ss) =
     s\<lparr>sample_fields := (sample_fields s)(f \<mapsto> v)\<rparr> # assign_values f vs ss"
| "assign_values f vs ss = ss"

definition scripted_set_values ::
  "string \<Rightarrow> field_value list \<Rightarrow> sample list \<Rightarrow> unit result \<times> sample list" where
  "scripted_set_values f vs d =
     (if list_all (\<lambda>s. sample_fields s f = None) d \<and> list_all (\<lambda>v. v = JsonValue JNull) vs
      then (Inl ValueError, d)
      else (Inr (), assign_values f vs d))"

text \<open>
  A world in which every file reads as three bytes, the registration answers with status
  \<open>s1\<close>, an upload URL and the asset id \<open>asset-1\<close>, the PUT answers with status \<open>s2\<close> and
  no JSON, the parse call answers with status \<open>s3\<close> and the JSON \<open>body\<close>, and the host
  is the one above.
\<close>

definition scripted_env :: "nat \<Rightarrow> nat \<Rightarrow> nat \<Rightarrow> json \<Rightarrow> env" where
  "scripted_env s1 s2 s3 body =
     \<lparr>open_read = (\<lambda>tr path. Inr [255, 216, 255]),
      http_send = (\<lambda>tr r.
        if req_method r = PUT then Inr \<lparr>status_code = s2, json_result = Inl JSONDecodeError\<rparr>
        else if req_url r = assets_url then
          Inr \<lparr>status_code = s1,
               json_result = Inr (JObj [(''uploadUrl'', JStr ''https://upload.example/slot''),
                                        (''assetId'', JStr ''asset-1'')])\<rparr>
        else Inr \<lparr>status_code = s3, json_result = Inr body\<rparr>),
      set_values = scripted_set_values\<rparr>"


definition plain_sample :: "string \<Rightarrow> sample" where
  "plain_sample path = \<lparr>sample_filepath = path, sample_fields = Map.empty\<rparr>"


section \<open>Conversion: what is returned, and when\<close>

lemma element_loop_snd:
  "snd (element_loop lib elems acc) = acc @ converted_prefix lib elems"
  by (induction elems arbitrary: acc) (auto split: sum.splits)

lemma parse_is_snd_try_block:
  "parse_nemo_response_to_detections lib response = Inr (snd (parse_try_block lib response))"
  by (simp add: parse_nemo_response_to_detections_def split: prod.splits sum.splits)

lemma parse_of_elements:
  "response_elements lib response = Inr elems \<Longrightarrow>
     parse_nemo_response_to_detections lib response = Inr (converted_prefix lib elems)"
  by (simp add: parse_is_snd_try_block parse_try_block_def element_loop_snd)

lemma parse_of_failure:
  "response_elements lib response = Inl e \<Longrightarrow>
     parse_nemo_response_to_detections lib response = Inr []"
  by (simp add: parse_is_snd_try_block parse_try_block_def)

lemma field_subscript_str: "field v k = Some x \<Longrightarrow> subscript_str v k = Inr x"
  by (cases v) simp_all

lemma first_item_subscript_0: "first_item v = Some x \<Longrightarrow> subscript_0 v = Inr x"
  by (cases v rule: first_item.cases) simp_all

lemma message_of_response_message:
  "message_of response = Some msg \<Longrightarrow> response_message response = Inr msg"
  unfolding message_of_def response_message_def
  by (auto simp: bind_eq_Some_conv field_subscript_str first_item_subscript_0)

lemma missing_tool_calls_arguments:
  "missing_tool_calls response \<Longrightarrow> response_arguments response = Inl KeyError"
  unfolding missing_tool_calls_def response_arguments_def
  by (auto simp: message_of_response_message message_arguments_def
      split: option.splits json.splits)

lemma with_arguments_response_arguments:
  "response_with_arguments response a \<Longrightarrow> response_arguments response = Inr a"
  unfolding response_with_arguments_def response_arguments_def message_arguments_def
  by (auto simp: bind_eq_Some_conv message_of_response_message field_subscript_str
      first_item_subscript_0)

lemma number_value_py_float: "number_value lib v = Some x \<Longrightarrow> py_float lib v = Inr x"
  by (cases v) (auto split: sum.splits)

lemma string_value_Some: "string_value v = Some s \<Longrightarrow> v = JStr s"
  by (cases v) simp_all

lemma coordinate_bbox_coord:
  "field elem ''bbox'' = Some b \<Longrightarrow> coordinate lib b k = Some x
     \<Longrightarrow> bbox_coord lib elem k = Inr x"
  unfolding coordinate_def bbox_coord_def
  by (auto simp: bind_eq_Some_conv field_subscript_str number_value_py_float)

text \<open>On a valid element the loop body builds the region of the specification.\<close>

lemma spec_region_element_detection:
  assumes "spec_region lib elem = Some d"
  shows "element_detection lib elem = Inr d"
proof -
  from assms obtain ty tx b x0 y0 x1 y1 where
    f: "field elem ''type'' = Some (JStr ty)" "field elem ''text'' = Some (JStr tx)"
      "field elem ''bbox'' = Some b"
    and c: "coordinate lib b ''xmin'' = Some x0" "coordinate lib b ''ymin'' = Some y0"
      "coordinate lib b ''xmax'' = Some x1" "coordinate lib b ''ymax'' = Some y1"
    and d: "d = \<lparr>label = Some ty,
                  bounding_box = [x0, y0, float_sub lib x1 x0, float_sub lib y1 y0],
                  text_of = JStr tx\<rparr>"
    unfolding spec_region_def
    by (auto simp: bind_eq_Some_conv dest!: string_value_Some)
  show ?thesis
    unfolding element_detection_def
    by (simp add: coordinate_bbox_coord[OF f(3)] c d field_subscript_str[OF f(1)]
        field_subscript_str[OF f(2)])
qed

lemma converted_prefix_valid:
  "\<forall>e\<in>set elems. valid_element lib e \<Longrightarrow>
     map Some (converted_prefix lib elems) = map (spec_region lib) elems"
proof (induction elems)
  case Nil
  then show ?case by simp
next
  case (Cons e es)
  then obtain d where "spec_region lib e = Some d"
    by (auto simp: valid_element_def)
  with Cons show ?case
    by (simp add: spec_region_element_detection)
qed

lemma spec_region_bbox_is:
  assumes "exact_on_small_integers lib"
    and "spec_region lib elem = Some d" and "bbox_is elem 10 20 110 220"
  shows "bounding_box d = [Finite 10, Finite 20, Finite 100, Finite 200]"
proof -
  from assms(1) have conv: "float_of_int lib i = Inr (Finite (of_int i))" if "\<bar>i\<bar> \<le> 2 ^ 53" for i
    using that by (simp add: exact_on_small_integers_def)
  from assms(1) have sub: "float_sub lib (Finite (of_int i)) (Finite (of_int j)) = Finite (of_int (i - j))"
    if "\<bar>i\<bar> \<le> 2 ^ 53" "\<bar>j\<bar> \<le> 2 ^ 53" "\<bar>i - j\<bar> \<le> 2 ^ 53" for i j
    using that by (simp add: exact_on_small_integers_def)
  from assms(3) obtain b where b: "field elem ''bbox'' = Some b"
      and fs: "field b ''xmin'' = Some (JInt 10)" "field b ''ymin'' = Some (JInt 20)"
        "field b ''xmax'' = Some (JInt 110)" "field b ''ymax'' = Some (JInt 220)"
    by (auto simp: bbox_is_def bind_eq_Some_conv)
  have c: "coordinate lib b ''xmin'' = Some (Finite 10)" "coordinate lib b ''ymin'' = Some (Finite 20)"
      "coordinate lib b ''xmax'' = Some (Finite 110)" "coordinate lib b ''ymax'' = Some (Finite 220)"
    using conv[of 10] conv[of 20] conv[of 110] conv[of 220]
    by (simp_all add: coordinate_def fs)
  have s: "float_sub lib (Finite 110) (Finite 10) = Finite 100"
      "float_sub lib (Finite 220) (Finite 20) = Finite 200"
    using sub[of 110 10] sub[of 220 20] by simp_all
  from assms(2) show ?thesis
    unfolding spec_region_def
    by (auto simp: bind_eq_Some_conv b c s)
qed

lemma table_lib_exact: "exact_on_small_integers table_lib"
  by (simp add: exact_on_small_integers_def table_lib_def)

lemma title_example:
  "response_with_arguments (chat_response one_element_text usage) (JStr one_element_text)"
  "json_loads table_lib one_element_text = Inr (JArr (JArr [title_element] # []))"
  "spec_region table_lib title_element = Some title_region"
  "bbox_is title_element 10 20 110 220"
  by (simp_all add: response_with_arguments_def message_of_def chat_response_def table_lib_def
      spec_region_def coordinate_def title_element_def title_region_def bbox_is_def)

text \<open>
  C2, as amended. Whatever is raised under \<open>try\<close>, the function returns: with no region
  when the exception comes before the element loop, and otherwise with the regions of the
  elements that were converted before the one that raised (all of them when none raises).
\<close>

theorem parse_returns_converted_prefix:
  "parse_nemo_response_to_detections lib response =
     Inr (case response_elements lib response of
            Inl e \<Rightarrow> []
          | Inr elems \<Rightarrow> converted_prefix lib elems)"
  by (cases "response_elements lib response") (simp_all add: parse_of_failure parse_of_elements)

text \<open>
  C2, as stated, fails: the second element of this response has no \<open>bbox\<close>, the loop
  raises \<open>KeyError\<close> on it, and the region of the first element is returned.
\<close>

theorem parse_partial_counterexample:
  "fst (parse_try_block table_lib (chat_response broken_second_text JNull)) = Inl KeyError
   \<and> parse_nemo_response_to_detections table_lib (chat_response broken_second_text JNull)
       = Inr [title_region]
   \<and> [title_region] \<noteq> []"
  by (simp add: parse_nemo_response_to_detections_def parse_try_block_def response_elements_def
      response_arguments_def response_message_def message_arguments_def chat_response_def
      table_lib_def element_detection_def bbox_coord_def title_element_def title_region_def
      one_element_text_def broken_second_text_def)

text \<open>
  C3. A response whose arguments decode to a list headed by \<open>N\<close> valid elements (the type
  and the text strings, the four coordinates numbers) is converted to \<open>N\<close> regions, in
  the order of the elements, each the region of the specification with box
  \<open>[xmin, ymin, xmax-xmin, ymax-ymin]\<close> in floats; and where double arithmetic is what it
  is on small integers, an element whose bbox is \<open>{xmin:10, ymin:20, xmax:110, ymax:220}\<close>
  gets the box \<open>[10, 20, 100, 200]\<close>.
\<close>

theorem parse_well_formed:
  assumes "response_with_arguments response (JStr s)"
    and "json_loads lib s = Inr (JArr (JArr elems # rest))"
    and "\<forall>e\<in>set elems. valid_element lib e"
  shows "\<exists>ds. parse_nemo_response_to_detections lib response = Inr ds
           \<and> length ds = length elems
           \<and> map Some ds = map (spec_region lib) elems
           \<and> (exact_on_small_integers lib
                \<longrightarrow> (\<forall>i<length elems. bbox_is (elems ! i) 10 20 110 220
                       \<longrightarrow> bounding_box (ds ! i) = [Finite 10, Finite 20, Finite 100, Finite 200]))"
proof -
  let ?ds = "converted_prefix lib elems"
  have "response_elements lib response = Inr elems"
    using assms(1,2) by (simp add: response_elements_def with_arguments_response_arguments)
  then have p: "parse_nemo_response_to_detections lib response = Inr ?ds"
    by (rule parse_of_elements)
  have m: "map Some ?ds = map (spec_region lib) elems"
    using assms(3) by (rule converted_prefix_valid)
  have l: "length ?ds = length elems"
    using arg_cong[OF m, of length] by simp
  have "bounding_box (?ds ! i) = [Finite 10, Finite 20, Finite 100, Finite 200]"
    if "exact_on_small_integers lib" "i < length elems" "bbox_is (elems ! i) 10 20 110 220" for i
  proof -
    have "map Some ?ds ! i = map (spec_region lib) elems ! i"
      by (simp only: m)
    with that(2) l have "spec_region lib (elems ! i) = Some (?ds ! i)"
      by simp
    with that(1) show ?thesis
      using that(3) by (rule spec_region_bbox_is)
  qed
  with p m l show ?thesis by blast
qed

theorem parse_well_formed_witness:
  "response_with_arguments (chat_response one_element_text (usage_counters 5 7 12))
     (JStr one_element_text)
   \<and> json_loads table_lib one_element_text = Inr (JArr [JArr [title_element]])
   \<and> valid_element table_lib title_element
   \<and> exact_on_small_integers table_lib
   \<and> bbox_is title_element 10 20 110 220
   \<and> parse_nemo_response_to_detections table_lib
        (chat_response one_element_text (usage_counters 5 7 12)) = Inr [title_region]
   \<and> bounding_box title_region = [Finite 10, Finite 20, Finite 100, Finite 200]"
proof -
  let ?r = "chat_response one_element_text (usage_counters 5 7 12)"
  have v: "\<forall>e\<in>set [title_element]. valid_element table_lib e"
    by (simp add: valid_element_def title_example(3))
  from parse_well_formed[OF title_example(1) title_example(2) v]
  obtain ds where ds: "parse_nemo_response_to_detections table_lib ?r = Inr ds"
      "map Some ds = map (spec_region table_lib) [title_element]"
      "exact_on_small_integers table_lib
         \<longrightarrow> (\<forall>i<length [title_element]. bbox_is ([title_element] ! i) 10 20 110 220
               \<longrightarrow> bounding_box (ds ! i) = [Finite 10, Finite 20, Finite 100, Finite 200])"
    by blast
  from ds(2) have e: "ds = [title_region]"
    by (auto simp: title_example(3))
  from ds(3) table_lib_exact title_example(4) have "bounding_box (ds ! 0) = [Finite 10, Finite 20, Finite 100, Finite 200]"
    by simp
  with ds(1) e show ?thesis
    using title_example v table_lib_exact by simp
qed

text \<open>
  C9. A response whose message has no \<open>tool_calls\<close> is converted to no region, and for
  every response and every library the function returns a value: nothing is raised.
\<close>

theorem parse_total:
  "(missing_tool_calls response \<longrightarrow> parse_nemo_response_to_detections lib response = Inr [])
   \<and> (\<exists>ds. parse_nemo_response_to_detections lib response = Inr ds)"
proof -
  have "parse_nemo_response_to_detections lib response = Inr []"
    if "missing_tool_calls response"
  proof -
    have "response_elements lib response = Inl KeyError"
      using that by (simp add: response_elements_def missing_tool_calls_arguments)
    then show ?thesis by (rule parse_of_failure)
  qed
  then show ?thesis
    by (simp add: parse_is_snd_try_block)
qed

theorem parse_total_witness:
  "missing_tool_calls
     (JObj [(''choices'', JArr [JObj [(''message'', JObj [(''content'', JStr ''no tools'')])]])])
   \<and> parse_nemo_response_to_detections table_lib
       (JObj [(''choices'', JArr [JObj [(''message'', JObj [(''content'', JStr ''no tools'')])]])])
       = Inr []"
proof -
  let ?r = "JObj [(''choices'', JArr [JObj [(''message'', JObj [(''content'', JStr ''no tools'')])]])]"
  have m: "missing_tool_calls ?r"
    by (simp add: missing_tool_calls_def message_of_def)
  with parse_total[of ?r table_lib] show ?thesis by blast
qed

section \<open>Loading the package\<close>

lemma nemo_retriever_module_names:
  "nemo_retriever_module installed = Inr ns \<Longrightarrow>
     map_of ns ''run_nemo_retriever_parse'' = None
     \<and> map_of ns ''run_nemo_parse'' = Some (FunctionObject RunNemoParse)"
  unfolding nemo_retriever_module_def import_module_def
  by (auto split: if_splits)

lemma load_package_cases:
  "load_package installed = Inl (ImportError ''run_nemo_retriever_parse'')
   \<or> (\<exists>m. load_package installed = Inl (ModuleNotFoundError m))"
proof (cases "nemo_retriever_module installed")
  case (Inl e)
  then have "\<exists>m. e = ModuleNotFoundError m"
    unfolding nemo_retriever_module_def import_module_def
    by (auto split: if_splits)
  with Inl show ?thesis
    unfolding load_package_def import_module_def by auto
next
  case (Inr ns)
  then have "import_from ns ''run_nemo_retriever_parse'' = Inl (ImportError ''run_nemo_retriever_parse'')"
    by (simp add: import_from_def nemo_retriever_module_names)
  with Inr show ?thesis
    unfolding load_package_def import_module_def by auto
qed

text \<open>
  C4. The core module binds \<open>run_nemo_parse\<close> and not \<open>run_nemo_retriever_parse\<close>, so
  loading the package ends in an import error whatever is installed (the error of line 7
  when every library is there), and running the operator ends in that error with the
  dataset and the trace as they were: no file is read and no HTTP call is made.
\<close>

theorem package_import_fails:
  "(\<exists>e. load_package installed = Inl e
        \<and> (e = ImportError ''run_nemo_retriever_parse'' \<or> (\<exists>m. e = ModuleNotFoundError m))
        \<and> run_operator installed lib env view api_key tr = (Inl e, view, tr))
   \<and> load_package (\<lambda>m. True) = Inl (ImportError ''run_nemo_retriever_parse'')
   \<and> (case nemo_retriever_module (\<lambda>m. True) of
         Inl e \<Rightarrow> False
       | Inr ns \<Rightarrow> map_of ns ''run_nemo_retriever_parse'' = None
                  \<and> map_of ns ''run_nemo_parse'' = Some (FunctionObject RunNemoParse))"
proof -
  have a: "\<exists>e. load_package installed = Inl e
        \<and> (e = ImportError ''run_nemo_retriever_parse'' \<or> (\<exists>m. e = ModuleNotFoundError m))
        \<and> run_operator installed lib env view api_key tr = (Inl e, view, tr)"
    using load_package_cases[of installed] by (auto simp: run_operator_def)
  have b: "load_package (\<lambda>m. True) = Inl (ImportError ''run_nemo_retriever_parse'')"
    by (simp add: load_package_def import_module_def nemo_retriever_module_def import_from_def)
  have d: "case nemo_retriever_module (\<lambda>m. True) of
         Inl e \<Rightarrow> False
       | Inr ns \<Rightarrow> map_of ns ''run_nemo_retriever_parse'' = None
                  \<and> map_of ns ''run_nemo_parse'' = Some (FunctionObject RunNemoParse)"
    by (simp add: import_module_def nemo_retriever_module_def)
  from a b d show ?thesis by blast
qed

section \<open>Asset upload\<close>

lemma raise_for_status_error:
  "400 \<le> status_code r \<Longrightarrow> status_code r < 600 \<Longrightarrow>
     raise_for_status r = Inl (HTTPError (status_code r))"
  by (simp add: raise_for_status_def)

lemma raise_for_status_ok:
  "\<not> (400 \<le> status_code r \<and> status_code r < 600) \<Longrightarrow> raise_for_status r = Inr ()"
  by (auto simp: raise_for_status_def)

lemma upload_asset_first_error:
  assumes "http_send env tr (register_request description api_key) = Inr r1"
    and "400 \<le> status_code r1" and "status_code r1 < 600"
  shows "upload_asset lib env image_data description api_key tr =
           (Inl (HTTPError (status_code r1)), tr @ [HttpCall (register_request description api_key)])"
  using assms by (simp add: upload_asset_def Let_def raise_for_status_error)

lemma upload_asset_second:
  assumes "http_send env tr (register_request description api_key) = Inr r1"
    and "\<not> (400 \<le> status_code r1 \<and> status_code r1 < 600)"
    and "json_result r1 = Inr (JObj m)"
    and "map_of m ''uploadUrl'' = Some u"
    and "http_send env (tr @ [HttpCall (register_request description api_key)])
           (put_request lib u image_data description) = Inr r2"
  shows "upload_asset lib env image_data description api_key tr =
           (try_bind (raise_for_status r2) (\<lambda>x.
            try_bind (subscript_str (JObj m) ''assetId'') (\<lambda>a. Inr (py_str lib a))),
            tr @ [HttpCall (register_request description api_key),
                  HttpCall (put_request lib u image_data description)])"
  using assms by (simp add: upload_asset_def Let_def raise_for_status_ok)

lemma upload_asset_trace:
  "snd (upload_asset lib env image_data description api_key tr) =
       tr @ [HttpCall (register_request description api_key)]
   \<or> (\<exists>u. snd (upload_asset lib env image_data description api_key tr) =
         tr @ [HttpCall (register_request description api_key),
               HttpCall (put_request lib u image_data description)])"
  unfolding upload_asset_def Let_def
  by (auto split: sum.splits prod.splits)

text \<open>
  C6. With \<open>r1\<close> the answer to the registration POST and \<open>r2\<close> the answer to the PUT: a
  4xx or 5xx status of \<open>r1\<close> is raised as the HTTP error after that one call; a 4xx or 5xx
  status of \<open>r2\<close> is raised after the two calls; when neither status is one, the result is
  \<open>str\<close> of the \<open>assetId\<close> that \<open>r1\<close> carried (the id itself when it is a string). In
  every run the calls made are the POST alone or the POST and one PUT: nothing is retried.
\<close>

theorem upload_asset_outcomes:
  "(http_send env tr (register_request description api_key) = Inr r1
      \<and> 400 \<le> status_code r1 \<and> status_code r1 < 600
     \<longrightarrow> upload_asset lib env image_data description api_key tr =
           (Inl (HTTPError (status_code r1)),
            tr @ [HttpCall (register_request description api_key)]))
   \<and> (http_send env tr (register_request description api_key) = Inr r1
      \<and> \<not> (400 \<le> status_code r1 \<and> status_code r1 < 600)
      \<and> json_result r1 = Inr (JObj m) \<and> map_of m ''uploadUrl'' = Some u
      \<and> http_send env (tr @ [HttpCall (register_request description api_key)])
           (put_request lib u image_data description) = Inr r2
      \<and> 400 \<le> status_code r2 \<and> status_code r2 < 600
     \<longrightarrow> upload_asset lib env image_data description api_key tr =
           (Inl (HTTPError (status_code r2)),
            tr @ [HttpCall (register_request description api_key),
                  HttpCall (put_request lib u image_data description)]))
   \<and> (http_send env tr (register_request description api_key) = Inr r1
      \<and> \<not> (400 \<le> status_code r1 \<and> status_code r1 < 600)
      \<and> json_result r1 = Inr (JObj m) \<and> map_of m ''uploadUrl'' = Some u
      \<and> http_send env (tr @ [HttpCall (register_request description api_key)])
           (put_request lib u image_data description) = Inr r2
      \<and> \<not> (400 \<le> status_code r2 \<and> status_code r2 < 600)
      \<and> map_of m ''assetId'' = Some a
     \<longrightarrow> upload_asset lib env image_data description api_key tr =
           (Inr (py_str lib a),
            tr @ [HttpCall (register_request description api_key),
                  HttpCall (put_request lib u image_data description)])
         \<and> py_str lib (JStr s) = s)
   \<and> (snd (upload_asset lib env image_data description api_key tr) =
         tr @ [HttpCall (register_request description api_key)]
       \<or> (\<exists>u'. snd (upload_asset lib env image_data description api_key tr) =
             tr @ [HttpCall (register_request description api_key),
                   HttpCall (put_request lib u' image_data description)]))"
proof -
  have 1: "http_send env tr (register_request description api_key) = Inr r1
      \<and> 400 \<le> status_code r1 \<and> status_code r1 < 600
     \<longrightarrow> upload_asset lib env image_data description api_key tr =
           (Inl (HTTPError (status_code r1)),
            tr @ [HttpCall (register_request description api_key)])"
    by (simp add: upload_asset_first_error)
  have 2: "http_send env tr (register_request description api_key) = Inr r1
      \<and> \<not> (400 \<le> status_code r1 \<and> status_code r1 < 600)
      \<and> json_result r1 = Inr (JObj m) \<and> map_of m ''uploadUrl'' = Some u
      \<and> http_send env (tr @ [HttpCall (register_request description api_key)])
           (put_request lib u image_data description) = Inr r2
      \<and> 400 \<le> status_code r2 \<and> status_code r2 < 600
     \<longrightarrow> upload_asset lib env image_data description api_key tr =
           (Inl (HTTPError (status_code r2)),
            tr @ [HttpCall (register_request description api_key),
                  HttpCall (put_request lib u image_data description)])"
    by (auto simp: upload_asset_second raise_for_status_error)
  have 3: "http_send env tr (register_request description api_key) = Inr r1
      \<and> \<not> (400 \<le> status_code r1 \<and> status_code r1 < 600)
      \<and> json_result r1 = Inr (JObj m) \<and> map_of m ''uploadUrl'' = Some u
      \<and> http_send env (tr @ [HttpCall (register_request description api_key)])
           (put_request lib u image_data description) = Inr r2
      \<and> \<not> (400 \<le> status_code r2 \<and> status_code r2 < 600)
      \<and> map_of m ''assetId'' = Some a
     \<longrightarrow> upload_asset lib env image_data description api_key tr =
           (Inr (py_str lib a),
            tr @ [HttpCall (register_request description api_key),
                  HttpCall (put_request lib u image_data description)])
         \<and> py_str lib (JStr s) = s"
    by (auto simp: upload_asset_second raise_for_status_ok)
  from 1 2 3 upload_asset_trace[of lib env image_data description api_key tr]
  show ?thesis by blast
qed

theorem upload_asset_outcomes_witness:
  "upload_asset table_lib (scripted_env 401 200 200 JNull) [255, 216, 255] ''Test Image'' ''key'' []
     = (Inl (HTTPError 401), [HttpCall (register_request ''Test Image'' ''key'')])
   \<and> upload_asset table_lib (scripted_env 200 403 200 JNull) [255, 216, 255] ''Test Image'' ''key'' []
     = (Inl (HTTPError 403),
        [HttpCall (register_request ''Test Image'' ''key''),
         HttpCall (put_request table_lib (JStr ''https://upload.example/slot'') [255, 216, 255]
                     ''Test Image'')])
   \<and> upload_asset table_lib (scripted_env 200 200 200 JNull) [255, 216, 255] ''Test Image'' ''key'' []
     = (Inr ''asset-1'',
        [HttpCall (register_request ''Test Image'' ''key''),
         HttpCall (put_request table_lib (JStr ''https://upload.example/slot'') [255, 216, 255]
                     ''Test Image'')])"
  using
    upload_asset_outcomes[where env = "scripted_env 401 200 200 JNull" and tr = "[]"
      and description = "''Test Image''" and api_key = "''key''" and lib = table_lib
      and image_data = "[255, 216, 255]"
      and ?r1.0 = "\<lparr>status_code = 401,
                    json_result = Inr (JObj [(''uploadUrl'', JStr ''https://upload.example/slot''),
                                             (''assetId'', JStr ''asset-1'')])\<rparr>"]
    upload_asset_outcomes[where env = "scripted_env 200 403 200 JNull" and tr = "[]"
      and description = "''Test Image''" and api_key = "''key''" and lib = table_lib
      and image_data = "[255, 216, 255]"
      and ?r1.0 = "\<lparr>status_code = 200,
                    json_result = Inr (JObj [(''uploadUrl'', JStr ''https://upload.example/slot''),
                                             (''assetId'', JStr ''asset-1'')])\<rparr>"
      and m = "[(''uploadUrl'', JStr ''https://upload.example/slot''), (''assetId'', JStr ''asset-1'')]"
      and u = "JStr ''https://upload.example/slot''"
      and ?r2.0 = "\<lparr>status_code = 403, json_result = Inl JSONDecodeError\<rparr>"]
    upload_asset_outcomes[where env = "scripted_env 200 200 200 JNull" and tr = "[]"
      and description = "''Test Image''" and api_key = "''key''" and lib = table_lib
      and image_data = "[255, 216, 255]"
      and ?r1.0 = "\<lparr>status_code = 200,
                    json_result = Inr (JObj [(''uploadUrl'', JStr ''https://upload.example/slot''),
                                             (''assetId'', JStr ''asset-1'')])\<rparr>"
      and m = "[(''uploadUrl'', JStr ''https://upload.example/slot''), (''assetId'', JStr ''asset-1'')]"
      and u = "JStr ''https://upload.example/slot''"
      and ?r2.0 = "\<lparr>status_code = 200, json_result = Inl JSONDecodeError\<rparr>"
      and a = "JStr ''asset-1''"]
  by (simp add: scripted_env_def register_request_def put_request_def assets_url_def)

section \<open>Headers of the calls\<close>

lemma http_calls_append: "http_calls (xs @ ys) = http_calls xs @ http_calls ys"
  by (induction xs rule: http_calls.induct) simp_all

lemma http_calls_headers_ok:
  "list_all (event_headers_ok api_key) evs \<Longrightarrow> list_all (call_headers_ok api_key) (http_calls evs)"
  by (induction evs rule: http_calls.induct) simp_all


lemma register_request_headers_ok: "call_headers_ok api_key (register_request description api_key)"
  by (simp add: call_headers_ok_def register_request_def create_headers_def)

lemma put_request_headers_ok: "call_headers_ok api_key (put_request lib u image_data description)"
  by (simp add: call_headers_ok_def put_request_def)

lemma parse_request_headers:
  "map_of (req_headers (parse_request asset_id api_key)) ''Authorization'' = Some (''Bearer '' @ api_key)"
  "asset_id \<noteq> [] \<Longrightarrow>
     map_of (req_headers (parse_request asset_id api_key)) ''NVCF-INPUT-ASSET-REFERENCES'' = Some asset_id"
  "asset_id \<noteq> [] \<Longrightarrow>
     map_of (req_headers (parse_request asset_id api_key)) ''NVCF-FUNCTION-ASSET-IDS'' = Some asset_id"
  by (simp_all add: parse_request_def create_headers_def Let_def)

lemma parse_request_headers_ok: "call_headers_ok api_key (parse_request asset_id api_key)"
  by (simp add: call_headers_ok_def parse_request_def create_headers_def Let_def)

lemma upload_asset_events:
  "\<exists>evs. snd (upload_asset lib env image_data description api_key tr) = tr @ evs
         \<and> list_all (event_headers_ok api_key) evs"
  using upload_asset_trace[of lib env image_data description api_key tr]
  by (auto simp: register_request_headers_ok put_request_headers_ok)

lemma process_image_after_upload:
  assumes "open_read env tr path = Inr image_data"
    and "upload_asset lib env image_data ''Test Image'' api_key (tr @ [FileRead path]) = (Inr asset_id, tr1)"
  shows "\<exists>res. process_image lib env path api_key tr =
           (res, tr1 @ [HttpCall (parse_request asset_id api_key)])"
  using assms by (simp add: process_image_def Let_def split: sum.splits)

lemma process_image_events:
  "\<exists>evs. snd (process_image lib env path api_key tr) = tr @ evs
         \<and> list_all (event_headers_ok api_key) evs"
proof (cases "open_read env tr path")
  case (Inl e)
  then show ?thesis by (simp add: process_image_def)
next
  case (Inr image_data)
  obtain r tr1 where u: "upload_asset lib env image_data ''Test Image'' api_key (tr @ [FileRead path]) = (r, tr1)"
    by (cases "upload_asset lib env image_data ''Test Image'' api_key (tr @ [FileRead path])")
  from upload_asset_events[of lib env image_data "''Test Image''" api_key "tr @ [FileRead path]"] u
  obtain evs where evs: "tr1 = tr @ [FileRead path] @ evs" "list_all (event_headers_ok api_key) evs"
    by auto
  show ?thesis
  proof (cases r)
    case (Inl e)
    with Inr u evs show ?thesis by (simp add: process_image_def)
  next
    case r: (Inr asset_id)
    from process_image_after_upload[OF Inr u[unfolded r]]
    have "snd (process_image lib env path api_key tr) = tr1 @ [HttpCall (parse_request asset_id api_key)]"
      by auto
    with evs show ?thesis by (simp add: parse_request_headers_ok)
  qed
qed

section \<open>One turn of the item loop\<close>

text \<open>An exception inside \<open>process_image\<close>: the handler adds one empty entry to each list.\<close>

lemma item_step_process_failed:
  "process_image lib env path api_key tr = (Inl e, tr1) \<Longrightarrow>
     item_step lib env path api_key acc tr = (item_handler acc, tr1)"
  by (simp add: item_step_def item_try_block_def)

text \<open>
  A response object whose \<open>usage\<close> is an object or absent: the detections and the three
  counters of the response are added.
\<close>

lemma item_step_success:
  assumes "process_image lib env path api_key tr = (Inr (JObj r), tr1)"
    and "(case map_of r ''usage'' of None \<Rightarrow> JObj [] | Some x \<Rightarrow> x) = JObj u"
  shows "item_step lib env path api_key acc tr =
           (acc\<lparr>all_detections := all_detections acc @ [snd (parse_try_block lib (JObj r))],
                prompt_tokens := prompt_tokens acc
                  @ [case map_of u ''prompt_tokens'' of None \<Rightarrow> JInt 0 | Some x \<Rightarrow> x],
                completion_tokens := completion_tokens acc
                  @ [case map_of u ''completion_tokens'' of None \<Rightarrow> JInt 0 | Some x \<Rightarrow> x],
                total_tokens := total_tokens acc
                  @ [case map_of u ''total_tokens'' of None \<Rightarrow> JInt 0 | Some x \<Rightarrow> x]\<rparr>, tr1)"
  using assms by (simp add: item_step_def item_try_block_def parse_is_snd_try_block)

text \<open>
  A response that is no object, or whose \<open>usage\<close> is no object: \<open>.get\<close> raises after the
  detections of the response were appended, and the handler appends a second entry.
\<close>

lemma item_step_get_failed:
  assumes "process_image lib env path api_key tr = (Inr response, tr1)"
    and "py_get response ''usage'' (JObj []) = Inl e
         \<or> (\<exists>usage. py_get response ''usage'' (JObj []) = Inr usage
                    \<and> py_get usage ''prompt_tokens'' (JInt 0) = Inl e)"
  shows "item_step lib env path api_key acc tr =
           (item_handler (acc\<lparr>all_detections :=
              all_detections acc @ [snd (parse_try_block lib response)]\<rparr>), tr1)"
  using assms by (auto simp: item_step_def item_try_block_def parse_is_snd_try_block)

lemma py_get_cases:
  "(\<exists>m. v = JObj m \<and> py_get v k d = Inr (case map_of m k of None \<Rightarrow> d | Some x \<Rightarrow> x))
   \<or> ((\<forall>m. v \<noteq> JObj m) \<and> py_get v k d = Inl AttributeError)"
  by (cases v) simp_all

text \<open>Every turn is one of the three above.\<close>

lemma item_step_cases:
  obtains (failed) e tr1 where "process_image lib env path api_key tr = (Inl e, tr1)"
      "item_step lib env path api_key acc tr = (item_handler acc, tr1)"
  | (success) r u tr1 where "process_image lib env path api_key tr = (Inr (JObj r), tr1)"
      "(case map_of r ''usage'' of None \<Rightarrow> JObj [] | Some x \<Rightarrow> x) = JObj u"
      "item_step lib env path api_key acc tr =
           (acc\<lparr>all_detections := all_detections acc @ [snd (parse_try_block lib (JObj r))],
                prompt_tokens := prompt_tokens acc
                  @ [case map_of u ''prompt_tokens'' of None \<Rightarrow> JInt 0 | Some x \<Rightarrow> x],
                completion_tokens := completion_tokens acc
                  @ [case map_of u ''completion_tokens'' of None \<Rightarrow> JInt 0 | Some x \<Rightarrow> x],
                total_tokens := total_tokens acc
                  @ [case map_of u ''total_tokens'' of None \<Rightarrow> JInt 0 | Some x \<Rightarrow> x]\<rparr>, tr1)"
  | (get_failed) response tr1 where "process_image lib env path api_key tr = (Inr response, tr1)"
      "py_get response ''usage'' (JObj []) = Inl AttributeError
         \<or> (\<exists>usage. py_get response ''usage'' (JObj []) = Inr usage
                    \<and> py_get usage ''prompt_tokens'' (JInt 0) = Inl AttributeError)"
      "item_step lib env path api_key acc tr =
           (item_handler (acc\<lparr>all_detections :=
              all_detections acc @ [snd (parse_try_block lib response)]\<rparr>), tr1)"
proof -
  obtain res tr1 where p: "process_image lib env path api_key tr = (res, tr1)"
    by (cases "process_image lib env path api_key tr")
  show thesis
  proof (cases res)
    case (Inl e)
    with p failed item_step_process_failed show ?thesis by blast
  next
    case (Inr response)
    note p' = p[unfolded Inr]
    from py_get_cases[of response "''usage''" "JObj []"] show ?thesis
    proof
      assume "\<exists>m. response = JObj m \<and> py_get response ''usage'' (JObj []) =
                Inr (case map_of m ''usage'' of None \<Rightarrow> JObj [] | Some x \<Rightarrow> x)"
      then obtain m where m: "response = JObj m"
        and g: "py_get response ''usage'' (JObj []) =
                Inr (case map_of m ''usage'' of None \<Rightarrow> JObj [] | Some x \<Rightarrow> x)"
        by blast
      let ?usage = "case map_of m ''usage'' of None \<Rightarrow> JObj [] | Some x \<Rightarrow> x"
      from py_get_cases[of ?usage "''prompt_tokens''" "JInt 0"] show ?thesis
      proof
        assume "\<exists>u. ?usage = JObj u \<and> py_get ?usage ''prompt_tokens'' (JInt 0) =
                  Inr (case map_of u ''prompt_tokens'' of None \<Rightarrow> JInt 0 | Some x \<Rightarrow> x)"
        then obtain u where "?usage = JObj u" by blast
        with success[OF p'[unfolded m]] item_step_success[OF p'[unfolded m]] show ?thesis
          by blast
      next
        assume "(\<forall>u. ?usage \<noteq> JObj u) \<and> py_get ?usage ''prompt_tokens'' (JInt 0) = Inl AttributeError"
        with g have "\<exists>usage. py_get response ''usage'' (JObj []) = Inr usage
                    \<and> py_get usage ''prompt_tokens'' (JInt 0) = Inl AttributeError"
          by blast
        with get_failed[OF p'] item_step_get_failed[OF p'] show ?thesis
          by blast
      qed
    next
      assume "(\<forall>m. response \<noteq> JObj m) \<and> py_get response ''usage'' (JObj []) = Inl AttributeError"
      with get_failed[OF p'] item_step_get_failed[OF p'] show ?thesis
        by blast
    qed
  qed
qed



section \<open>The item loop\<close>

lemma item_step_snd:
  "snd (item_step lib env path api_key acc tr) = snd (process_image lib env path api_key tr)"
  by (cases rule: item_step_cases[of lib env path api_key tr acc]) simp_all

lemma item_step_token_lengths:
  "length (prompt_tokens (fst (item_step lib env path api_key acc tr))) = Suc (length (prompt_tokens acc))"
  "length (completion_tokens (fst (item_step lib env path api_key acc tr))) = Suc (length (completion_tokens acc))"
  "length (total_tokens (fst (item_step lib env path api_key acc tr))) = Suc (length (total_tokens acc))"
  by (cases rule: item_step_cases[of lib env path api_key tr acc]; simp add: item_handler_def)+

lemma item_step_detections_length:
  "length (all_detections (fst (item_step lib env path api_key acc tr))) = Suc (length (all_detections acc))
   \<or> length (all_detections (fst (item_step lib env path api_key acc tr))) = Suc (Suc (length (all_detections acc)))"
  by (cases rule: item_step_cases[of lib env path api_key tr acc]; simp add: item_handler_def)

lemma item_loop_events:
  "\<exists>evs. snd (item_loop lib env api_key paths acc tr) = tr @ evs
         \<and> list_all (event_headers_ok api_key) evs"
proof (induction paths arbitrary: acc tr)
  case Nil
  then show ?case by simp
next
  case (Cons path paths)
  obtain acc1 tr1 where s: "item_step lib env path api_key acc tr = (acc1, tr1)"
    by (cases "item_step lib env path api_key acc tr")
  from process_image_events[of lib env path api_key tr] item_step_snd[of lib env path api_key acc tr] s
  obtain evs1 where e1: "tr1 = tr @ evs1" "list_all (event_headers_ok api_key) evs1"
    by auto
  from Cons.IH[of acc1 tr1]
  obtain evs2 where e2: "snd (item_loop lib env api_key paths acc1 tr1) = tr1 @ evs2"
      "list_all (event_headers_ok api_key) evs2"
    by blast
  have "snd (item_loop lib env api_key (path # paths) acc tr) = tr @ (evs1 @ evs2)"
    using s e1 e2 by simp
  moreover have "list_all (event_headers_ok api_key) (evs1 @ evs2)"
    using e1 e2 by simp
  ultimately show ?case by blast
qed

lemma item_loop_token_lengths:
  "length (prompt_tokens (fst (item_loop lib env api_key paths acc tr)))
     = length (prompt_tokens acc) + length paths
   \<and> length (completion_tokens (fst (item_loop lib env api_key paths acc tr)))
     = length (completion_tokens acc) + length paths
   \<and> length (total_tokens (fst (item_loop lib env api_key paths acc tr)))
     = length (total_tokens acc) + length paths"
proof (induction paths arbitrary: acc tr)
  case Nil
  then show ?case by simp
next
  case (Cons path paths)
  obtain acc1 tr1 where s: "item_step lib env path api_key acc tr = (acc1, tr1)"
    by (cases "item_step lib env path api_key acc tr")
  from item_step_token_lengths[of lib env path api_key acc tr] s
  have "length (prompt_tokens acc1) = Suc (length (prompt_tokens acc))"
    "length (completion_tokens acc1) = Suc (length (completion_tokens acc))"
    "length (total_tokens acc1) = Suc (length (total_tokens acc))"
    by simp_all
  with Cons.IH[of acc1 tr1] s show ?case by simp
qed

lemma item_loop_detections_length:
  "length (all_detections acc) + length paths
     \<le> length (all_detections (fst (item_loop lib env api_key paths acc tr)))"
proof (induction paths arbitrary: acc tr)
  case Nil
  then show ?case by simp
next
  case (Cons path paths)
  obtain acc1 tr1 where s: "item_step lib env path api_key acc tr = (acc1, tr1)"
    by (cases "item_step lib env path api_key acc tr")
  from item_step_detections_length[of lib env path api_key acc tr] s
  have "Suc (length (all_detections acc)) \<le> length (all_detections acc1)"
    by auto
  with Cons.IH[of acc1 tr1] s show ?case by simp
qed

lemma http_calls_set_values: "http_calls (map SetValues ws) = []"
  by (induction ws) simp_all

text \<open>
  The writes are attempted in the order of \<open>nemo_fields\<close>, after the loop, up to the
  first that raises; a run that returns has attempted the four.
\<close>

lemma run_nemo_parse_trace:
  "\<exists>k. snd (snd (run_nemo_parse lib env dataset api_key tr)) =
          snd (item_loop lib env api_key (dataset_filepaths dataset) no_results tr)
            @ map SetValues (take k nemo_fields)
       \<and> (fst (fst (run_nemo_parse lib env dataset api_key tr)) = Inr () \<longrightarrow> k = 4)"
proof -
  obtain res tr1 where l: "item_loop lib env api_key (dataset_filepaths dataset) no_results tr = (res, tr1)"
    by (cases "item_loop lib env api_key (dataset_filepaths dataset) no_results tr")
  obtain r1 d1 where s1: "set_values env ''nemo_detections''
      (map DetectionsValue (all_detections res)) dataset = (r1, d1)"
    by (cases "set_values env ''nemo_detections'' (map DetectionsValue (all_detections res)) dataset")
  obtain r2 d2 where s2: "set_values env ''nemo_prompt_tokens''
      (map JsonValue (prompt_tokens res)) d1 = (r2, d2)"
    by (cases "set_values env ''nemo_prompt_tokens'' (map JsonValue (prompt_tokens res)) d1")
  obtain r3 d3 where s3: "set_values env ''nemo_completion_tokens''
      (map JsonValue (completion_tokens res)) d2 = (r3, d3)"
    by (cases "set_values env ''nemo_completion_tokens'' (map JsonValue (completion_tokens res)) d2")
  obtain r4 d4 where s4: "set_values env ''nemo_total_tokens''
      (map JsonValue (total_tokens res)) d3 = (r4, d4)"
    by (cases "set_values env ''nemo_total_tokens'' (map JsonValue (total_tokens res)) d3")
  show ?thesis
  proof (cases r1)
    case (Inl e)
    with l s1 show ?thesis
      by (intro exI[of _ 1]) (simp add: run_nemo_parse_def nemo_fields_def)
  next
    case r1: (Inr u1)
    show ?thesis
    proof (cases r2)
      case (Inl e)
      with l s1 r1 s2 show ?thesis
        by (intro exI[of _ 2]) (simp add: run_nemo_parse_def nemo_fields_def)
    next
      case r2: (Inr u2)
      show ?thesis
      proof (cases r3)
        case (Inl e)
        with l s1 r1 s2 r2 s3 show ?thesis
          by (intro exI[of _ 3]) (simp add: run_nemo_parse_def nemo_fields_def)
      next
        case (Inr u3)
        with l s1 r1 s2 r2 s3 s4 show ?thesis
          by (intro exI[of _ 4]) (simp add: run_nemo_parse_def nemo_fields_def)
      qed
    qed
  qed
qed

text \<open>What the scripted world answers, for any path and trace.\<close>

lemma scripted_upload_ok:
  "upload_asset table_lib (scripted_env 200 200 s3 body) image_data ''Test Image'' ''key'' tr =
     (Inr ''asset-1'',
      tr @ [HttpCall (register_request ''Test Image'' ''key''),
            HttpCall (put_request table_lib (JStr ''https://upload.example/slot'') image_data
                        ''Test Image'')])"
  by (simp add: upload_asset_def Let_def scripted_env_def register_request_def put_request_def
      assets_url_def raise_for_status_def)

lemma scripted_process_image_ok:
  "process_image table_lib (scripted_env 200 200 200 body) path ''key'' tr =
     (Inr body,
      tr @ [FileRead path,
            HttpCall (register_request ''Test Image'' ''key''),
            HttpCall (put_request table_lib (JStr ''https://upload.example/slot'') [255, 216, 255]
                        ''Test Image''),
            HttpCall (parse_request ''asset-1'' ''key'')])"
proof -
  have o: "open_read (scripted_env 200 200 200 body) tr path = Inr [255, 216, 255]"
    by (simp add: scripted_env_def)
  have h: "http_send (scripted_env 200 200 200 body) tr' (parse_request ''asset-1'' ''key'')
             = Inr \<lparr>status_code = 200, json_result = Inr body\<rparr>" for tr'
    by (simp add: scripted_env_def parse_request_def assets_url_def chat_completions_url_def)
  show ?thesis
    by (simp add: process_image_def Let_def o scripted_upload_ok h raise_for_status_def)
qed

lemma scripted_process_image_401:
  "process_image table_lib (scripted_env 401 s2 s3 body) path ''key'' tr =
     (Inl (HTTPError 401), tr @ [FileRead path, HttpCall (register_request ''Test Image'' ''key'')])"
  by (simp add: process_image_def Let_def upload_asset_def scripted_env_def register_request_def
      assets_url_def raise_for_status_def)

lemma title_response_parse:
  "snd (parse_try_block table_lib (chat_response one_element_text usage)) = [title_region]"
  by (simp add: parse_try_block_def response_elements_def
      response_arguments_def response_message_def message_arguments_def chat_response_def
      table_lib_def element_detection_def bbox_coord_def title_element_def title_region_def)

text \<open>
  C7, as amended. Of the calls that a run makes, each POST (the registration and the parse
  invocation) carries \<open>Authorization: Bearer <api_key>\<close>, and each PUT carries the
  description and content-type headers and no other. The parse invocation that follows an
  upload is made with the asset id that the upload returned, and carries the two asset
  headers set to that id when the id is not the empty string.
\<close>

theorem pipeline_call_headers:
  "(\<exists>evs. snd (snd (run_nemo_parse lib env dataset api_key tr)) = tr @ evs
          \<and> (\<forall>r\<in>set (http_calls evs). call_headers_ok api_key r))
   \<and> (open_read env tr path = Inr image_data
        \<and> upload_asset lib env image_data ''Test Image'' api_key (tr @ [FileRead path])
            = (Inr asset_id, tr1)
      \<longrightarrow> (\<exists>res. process_image lib env path api_key tr
                   = (res, tr1 @ [HttpCall (parse_request asset_id api_key)])))
   \<and> map_of (req_headers (parse_request asset_id api_key)) ''Authorization''
       = Some (''Bearer '' @ api_key)
   \<and> (asset_id \<noteq> []
      \<longrightarrow> map_of (req_headers (parse_request asset_id api_key)) ''NVCF-INPUT-ASSET-REFERENCES''
            = Some asset_id
        \<and> map_of (req_headers (parse_request asset_id api_key)) ''NVCF-FUNCTION-ASSET-IDS''
            = Some asset_id)"
proof -
  from item_loop_events[of lib env api_key "dataset_filepaths dataset" no_results tr]
  obtain evs where evs: "snd (item_loop lib env api_key (dataset_filepaths dataset) no_results tr)
      = tr @ evs" "list_all (event_headers_ok api_key) evs"
    by blast
  from run_nemo_parse_trace[of lib env dataset api_key tr]
  obtain k where k: "snd (snd (run_nemo_parse lib env dataset api_key tr)) =
      snd (item_loop lib env api_key (dataset_filepaths dataset) no_results tr)
        @ map SetValues (take k nemo_fields)"
    by blast
  let ?w = "map SetValues (take k nemo_fields)"
  have "snd (snd (run_nemo_parse lib env dataset api_key tr)) = tr @ (evs @ ?w)"
    by (simp add: k evs(1))
  moreover have "\<forall>r\<in>set (http_calls (evs @ ?w)). call_headers_ok api_key r"
    using http_calls_headers_ok[OF evs(2)]
    by (simp add: http_calls_append http_calls_set_values list_all_iff)
  ultimately have a: "\<exists>evs. snd (snd (run_nemo_parse lib env dataset api_key tr)) = tr @ evs
          \<and> (\<forall>r\<in>set (http_calls evs). call_headers_ok api_key r)"
    by blast
  have b: "open_read env tr path = Inr image_data
        \<and> upload_asset lib env image_data ''Test Image'' api_key (tr @ [FileRead path])
            = (Inr asset_id, tr1)
      \<longrightarrow> (\<exists>res. process_image lib env path api_key tr
                   = (res, tr1 @ [HttpCall (parse_request asset_id api_key)]))"
    using process_image_after_upload by blast
  from a b parse_request_headers[of asset_id api_key] show ?thesis
    by blast
qed

theorem pipeline_call_headers_witness:
  "http_calls (snd (snd (run_nemo_parse table_lib (scripted_env 200 200 200 JNull)
      [plain_sample ''page.jpg''] ''key'' [])))
     = [register_request ''Test Image'' ''key'',
        put_request table_lib (JStr ''https://upload.example/slot'') [255, 216, 255] ''Test Image'',
        parse_request ''asset-1'' ''key'']
   \<and> call_headers_ok ''key'' (register_request ''Test Image'' ''key'')
   \<and> call_headers_ok ''key''
        (put_request table_lib (JStr ''https://upload.example/slot'') [255, 216, 255] ''Test Image'')
   \<and> call_headers_ok ''key'' (parse_request ''asset-1'' ''key'')
   \<and> map_of (req_headers (parse_request ''asset-1'' ''key'')) ''NVCF-INPUT-ASSET-REFERENCES''
       = Some ''asset-1''
   \<and> map_of (req_headers (parse_request ''asset-1'' ''key'')) ''NVCF-FUNCTION-ASSET-IDS''
       = Some ''asset-1''"
proof -
  let ?env = "scripted_env 200 200 200 JNull"
  let ?run = "run_nemo_parse table_lib ?env [plain_sample ''page.jpg''] ''key'' []"
  have calls: "http_calls (snd (snd ?run))
     = [register_request ''Test Image'' ''key'',
        put_request table_lib (JStr ''https://upload.example/slot'') [255, 216, 255] ''Test Image'',
        parse_request ''asset-1'' ''key'']"
  proof -
    have "snd (item_loop table_lib ?env ''key'' [''page.jpg''] no_results [])
            = snd (item_step table_lib ?env ''page.jpg'' ''key'' no_results [])"
      by (simp split: prod.splits)
    moreover from run_nemo_parse_trace[of table_lib ?env "[plain_sample ''page.jpg'']" "''key''" "[]"]
    obtain k where "snd (snd ?run) =
        snd (item_loop table_lib ?env ''key'' (dataset_filepaths [plain_sample ''page.jpg''])
               no_results [])
          @ map SetValues (take k nemo_fields)"
      by blast
    ultimately show ?thesis
      by (simp add: dataset_filepaths_def plain_sample_def item_step_snd
          scripted_process_image_ok http_calls_append http_calls_set_values)
  qed
  from pipeline_call_headers[of table_lib ?env "[plain_sample ''page.jpg'']" "''key''" "[]"
      "''page.jpg''" "[255, 216, 255]" "''asset-1''"]
  obtain evs where evs: "snd (snd ?run) = [] @ evs" "\<forall>r\<in>set (http_calls evs). call_headers_ok ''key'' r"
    and ids: "map_of (req_headers (parse_request ''asset-1'' ''key'')) ''NVCF-INPUT-ASSET-REFERENCES''
       = Some ''asset-1''"
      "map_of (req_headers (parse_request ''asset-1'' ''key'')) ''NVCF-FUNCTION-ASSET-IDS''
       = Some ''asset-1''"
    by auto
  from evs calls have "\<forall>r\<in>set [register_request ''Test Image'' ''key'',
        put_request table_lib (JStr ''https://upload.example/slot'') [255, 216, 255] ''Test Image'',
        parse_request ''asset-1'' ''key'']. call_headers_ok ''key'' r"
    by simp
  with calls ids show ?thesis by simp
qed

text \<open>
  C7, as stated, fails twice: the PUT of an upload carries no \<open>Authorization\<close> header, and
  for an asset id that is the empty string the parse invocation carries no asset header.
\<close>

theorem put_without_authorization_counterexample:
  "http_calls (snd (upload_asset table_lib (scripted_env 200 200 200 JNull) [255, 216, 255]
      ''Test Image'' ''key'' [])) ! 1
     = put_request table_lib (JStr ''https://upload.example/slot'') [255, 216, 255] ''Test Image''
   \<and> map_of (req_headers (put_request table_lib (JStr ''https://upload.example/slot'')
        [255, 216, 255] ''Test Image'')) ''Authorization'' = None
   \<and> map_of (req_headers (parse_request '''' ''key'')) ''NVCF-INPUT-ASSET-REFERENCES'' = None
   \<and> map_of (req_headers (parse_request '''' ''key'')) ''NVCF-FUNCTION-ASSET-IDS'' = None"
  by (simp add: scripted_upload_ok) (simp add: put_request_def parse_request_def create_headers_def)

section \<open>Alignment of the four lists\<close>

lemma run_nemo_parse_results:
  "fst (snd (run_nemo_parse lib env dataset api_key tr)) =
     fst (item_loop lib env api_key (dataset_filepaths dataset) no_results tr)"
  by (simp add: run_nemo_parse_def split: prod.splits sum.splits)

text \<open>
  The scripted world with a response that holds one element and a \<open>usage\<close> that is no
  object (\<open>null\<close>, a string): the turn appends the region of the element, then
  \<open>usage.get\<close> raises \<open>AttributeError\<close> and the handler appends its own four entries.
\<close>

lemma scripted_try_block_usage:
  assumes "usage = JNull \<or> usage = JStr s"
  shows "item_try_block table_lib
           (scripted_env 200 200 200 (chat_response one_element_text usage)) path ''key'' acc tr
         = (Inl AttributeError, acc\<lparr>all_detections := all_detections acc @ [[title_region]]\<rparr>,
            tr @ [FileRead path,
                  HttpCall (register_request ''Test Image'' ''key''),
                  HttpCall (put_request table_lib (JStr ''https://upload.example/slot'')
                              [255, 216, 255] ''Test Image''),
                  HttpCall (parse_request ''asset-1'' ''key'')])"
proof -
  have g: "py_get (chat_response one_element_text usage) ''usage'' (JObj []) = Inr usage"
    by (simp add: chat_response_def)
  have a: "py_get usage ''prompt_tokens'' (JInt 0) = Inl AttributeError"
    using assms by auto
  show ?thesis
    by (simp add: item_try_block_def scripted_process_image_ok parse_is_snd_try_block
        title_response_parse g a)
qed

lemma scripted_step_usage:
  assumes "usage = JNull \<or> usage = JStr s"
  shows "item_step table_lib
           (scripted_env 200 200 200 (chat_response one_element_text usage)) path ''key'' acc tr
         = (item_handler (acc\<lparr>all_detections := all_detections acc @ [[title_region]]\<rparr>),
            tr @ [FileRead path,
                  HttpCall (register_request ''Test Image'' ''key''),
                  HttpCall (put_request table_lib (JStr ''https://upload.example/slot'')
                              [255, 216, 255] ''Test Image''),
                  HttpCall (parse_request ''asset-1'' ''key'')])"
  by (simp add: item_step_def scripted_try_block_usage[OF assms])

text \<open>
  C1 fails on the code. One image whose response has \<open>"usage": null\<close>: the run ends with
  two entries in the detections list and one in each token list, for one file path.
\<close>

theorem usage_null_list_lengths:
  "length (dataset_filepaths [plain_sample ''page.jpg'']) = 1
   \<and> length (all_detections (fst (snd (run_nemo_parse table_lib
        (scripted_env 200 200 200 (chat_response one_element_text JNull))
        [plain_sample ''page.jpg''] ''key'' [])))) = 2
   \<and> length (prompt_tokens (fst (snd (run_nemo_parse table_lib
        (scripted_env 200 200 200 (chat_response one_element_text JNull))
        [plain_sample ''page.jpg''] ''key'' [])))) = 1
   \<and> length (completion_tokens (fst (snd (run_nemo_parse table_lib
        (scripted_env 200 200 200 (chat_response one_element_text JNull))
        [plain_sample ''page.jpg''] ''key'' [])))) = 1
   \<and> length (total_tokens (fst (snd (run_nemo_parse table_lib
        (scripted_env 200 200 200 (chat_response one_element_text JNull))
        [plain_sample ''page.jpg''] ''key'' [])))) = 1"
proof -
  let ?env = "scripted_env 200 200 200 (chat_response one_element_text JNull)"
  have "fst (item_loop table_lib ?env ''key'' [''page.jpg''] no_results [])
          = item_handler (no_results\<lparr>all_detections := [[title_region]]\<rparr>)"
    by (simp add: scripted_step_usage no_results_def)
  then show ?thesis
    by (simp add: run_nemo_parse_results dataset_filepaths_def plain_sample_def
        item_handler_def no_results_def)
qed

text \<open>
  C5 fails on the code, by the same defect. Two images, each answered with one element and
  \<open>"usage": null\<close>: the block of each raises \<open>AttributeError\<close> in the response handling,
  yet position 0 holds the region of the first image and not an empty value, and
  position 1, the second image's, holds the handler's entry for the first.
\<close>

theorem usage_null_positions:
  "fst (item_try_block table_lib (scripted_env 200 200 200 (chat_response one_element_text JNull))
          ''a.jpg'' ''key'' no_results []) = Inl AttributeError
   \<and> all_detections (fst (snd (run_nemo_parse table_lib
        (scripted_env 200 200 200 (chat_response one_element_text JNull))
        [plain_sample ''a.jpg'', plain_sample ''b.jpg''] ''key'' [])))
       = [[title_region], [], [title_region], []]
   \<and> prompt_tokens (fst (snd (run_nemo_parse table_lib
        (scripted_env 200 200 200 (chat_response one_element_text JNull))
        [plain_sample ''a.jpg'', plain_sample ''b.jpg''] ''key'' [])))
       = [JInt 0, JInt 0]"
proof -
  let ?env = "scripted_env 200 200 200 (chat_response one_element_text JNull)"
  have "fst (item_loop table_lib ?env ''key'' [''a.jpg'', ''b.jpg''] no_results [])
          = \<lparr>all_detections = [[title_region], [], [title_region], []],
             prompt_tokens = [JInt 0, JInt 0], completion_tokens = [JInt 0, JInt 0],
             total_tokens = [JInt 0, JInt 0]\<rparr>"
    by (simp add: scripted_step_usage item_handler_def no_results_def)
  then show ?thesis
    by (simp add: run_nemo_parse_results dataset_filepaths_def plain_sample_def
        scripted_try_block_usage item_handler_def no_results_def)
qed

text \<open>
  C8 fails on the code, by the same defect. A response with one element and a \<open>usage\<close>
  that is a string: the turn leaves two region entries for the one image, the first of
  them not empty, next to counters that are all zero.
\<close>

theorem usage_string_outcome:
  "fst (item_step table_lib
          (scripted_env 200 200 200 (chat_response one_element_text (JStr ''n/a'')))
          ''page.jpg'' ''key'' no_results [])
     = \<lparr>all_detections = [[title_region], []], prompt_tokens = [JInt 0],
        completion_tokens = [JInt 0], total_tokens = [JInt 0]\<rparr>
   \<and> [title_region] \<noteq> []"
  by (simp add: scripted_step_usage item_handler_def no_results_def)

section \<open>Writing the fields\<close>







lemma run_nemo_parse_lengths:
  "length (prompt_tokens (fst (snd (run_nemo_parse lib env dataset api_key tr)))) = length dataset"
  "length (completion_tokens (fst (snd (run_nemo_parse lib env dataset api_key tr)))) = length dataset"
  "length (total_tokens (fst (snd (run_nemo_parse lib env dataset api_key tr)))) = length dataset"
  "length dataset \<le> length (all_detections (fst (snd (run_nemo_parse lib env dataset api_key tr))))"
  using item_loop_token_lengths[of lib env api_key "dataset_filepaths dataset" no_results tr]
    item_loop_detections_length[of no_results "dataset_filepaths dataset" lib env api_key tr]
  by (simp_all add: run_nemo_parse_results dataset_filepaths_def no_results_def)













section \<open>What does hold of the lists\<close>

text \<open>
  The three token lists have one entry per file path in every run, and the detections
  list has at least that many.
\<close>

theorem token_lists_aligned:
  "length (prompt_tokens (fst (snd (run_nemo_parse lib env dataset api_key tr))))
     = length (dataset_filepaths dataset)
   \<and> length (completion_tokens (fst (snd (run_nemo_parse lib env dataset api_key tr))))
     = length (dataset_filepaths dataset)
   \<and> length (total_tokens (fst (snd (run_nemo_parse lib env dataset api_key tr))))
     = length (dataset_filepaths dataset)
   \<and> length (dataset_filepaths dataset)
     \<le> length (all_detections (fst (snd (run_nemo_parse lib env dataset api_key tr))))"
  by (simp add: run_nemo_parse_lengths dataset_filepaths_def)

text \<open>
  An exception raised inside \<open>process_image\<close> (the file read, the upload, the parse
  invocation) is caught: the turn appends one empty detections value and one zero to each
  token list, and the loop goes on from the trace that the failed call left.
\<close>

theorem process_image_failure_recorded:
  "process_image lib env path api_key tr = (Inl e, tr1) \<longrightarrow>
     item_step lib env path api_key acc tr =
       (acc\<lparr>all_detections := all_detections acc @ [[]],
            prompt_tokens := prompt_tokens acc @ [JInt 0],
            completion_tokens := completion_tokens acc @ [JInt 0],
            total_tokens := total_tokens acc @ [JInt 0]\<rparr>, tr1)"
  by (simp add: item_step_process_failed item_handler_def)

theorem process_image_failure_recorded_witness:
  "process_image table_lib (scripted_env 401 200 200 JNull) ''page.jpg'' ''key'' []
     = (Inl (HTTPError 401), [FileRead ''page.jpg'', HttpCall (register_request ''Test Image'' ''key'')])
   \<and> item_step table_lib (scripted_env 401 200 200 JNull) ''page.jpg'' ''key'' no_results []
     = (\<lparr>all_detections = [[]], prompt_tokens = [JInt 0], completion_tokens = [JInt 0],
         total_tokens = [JInt 0]\<rparr>,
        [FileRead ''page.jpg'', HttpCall (register_request ''Test Image'' ''key'')])"
  using process_image_failure_recorded[of table_lib "scripted_env 401 200 200 JNull" "''page.jpg''"
      "''key''" "[]" "HTTPError 401"
      "[FileRead ''page.jpg'', HttpCall (register_request ''Test Image'' ''key'')]" no_results]
  by (simp add: scripted_process_image_401 no_results_def)

text \<open>
  A response object whose \<open>usage\<close> is an object, or absent, is recorded in full: the
  detections converted from it and its three counters, \<open>0\<close> for a counter it lacks.
\<close>

theorem response_recorded:
  "process_image lib env path api_key tr = (Inr (JObj r), tr1)
     \<and> (case map_of r ''usage'' of None \<Rightarrow> JObj [] | Some x \<Rightarrow> x) = JObj u
   \<longrightarrow> (\<exists>dets. parse_nemo_response_to_detections lib (JObj r) = Inr dets
          \<and> item_step lib env path api_key acc tr =
             (acc\<lparr>all_detections := all_detections acc @ [dets],
                  prompt_tokens := prompt_tokens acc
                    @ [case map_of u ''prompt_tokens'' of None \<Rightarrow> JInt 0 | Some x \<Rightarrow> x],
                  completion_tokens := completion_tokens acc
                    @ [case map_of u ''completion_tokens'' of None \<Rightarrow> JInt 0 | Some x \<Rightarrow> x],
                  total_tokens := total_tokens acc
                    @ [case map_of u ''total_tokens'' of None \<Rightarrow> JInt 0 | Some x \<Rightarrow> x]\<rparr>, tr1))"
  using item_step_success[of lib env path api_key tr r tr1 u acc]
  by (auto simp: parse_is_snd_try_block)

theorem response_recorded_witness:
  "item_step table_lib
     (scripted_env 200 200 200 (chat_response one_element_text (usage_counters 5 7 12)))
     ''page.jpg'' ''key'' no_results []
   = (\<lparr>all_detections = [[title_region]], prompt_tokens = [JInt 5],
       completion_tokens = [JInt 7], total_tokens = [JInt 12]\<rparr>,
      [FileRead ''page.jpg'',
       HttpCall (register_request ''Test Image'' ''key''),
       HttpCall (put_request table_lib (JStr ''https://upload.example/slot'')
                   [255, 216, 255] ''Test Image''),
       HttpCall (parse_request ''asset-1'' ''key'')])"
proof -
  let ?body = "chat_response one_element_text (usage_counters 5 7 12)"
  let ?tr = "[FileRead ''page.jpg'',
       HttpCall (register_request ''Test Image'' ''key''),
       HttpCall (put_request table_lib (JStr ''https://upload.example/slot'')
                   [255, 216, 255] ''Test Image''),
       HttpCall (parse_request ''asset-1'' ''key'')]"
  obtain r where r: "?body = JObj r" "map_of r ''usage'' = Some (usage_counters 5 7 12)"
    by (simp add: chat_response_def)
  have u: "(case map_of r ''usage'' of None \<Rightarrow> JObj [] | Some x \<Rightarrow> x)
      = JObj [(''prompt_tokens'', JInt 5), (''completion_tokens'', JInt 7), (''total_tokens'', JInt 12)]"
    by (simp add: r(2) usage_counters_def)
  have p: "process_image table_lib (scripted_env 200 200 200 ?body) ''page.jpg'' ''key'' []
      = (Inr (JObj r), ?tr)"
    by (simp add: scripted_process_image_ok r(1))
  have d: "parse_nemo_response_to_detections table_lib (JObj r) = Inr [title_region]"
    using title_response_parse[of "usage_counters 5 7 12"]
    by (simp add: parse_is_snd_try_block r(1))
  from response_recorded[of table_lib "scripted_env 200 200 200 ?body" "''page.jpg''" "''key''" "[]"
      r ?tr "[(''prompt_tokens'', JInt 5), (''completion_tokens'', JInt 7), (''total_tokens'', JInt 12)]"
      no_results] p u d
  show ?thesis
    by (simp add: no_results_def)
qed

end
